theory Spec2Isabelle
  imports Complex_Main "HOL-Library.Product_Lexorder"
begin

section \<open>Python values and errors\<close>

text \<open>
  Exceptions of the Python source are values: a function that can raise returns
  \<open>py_error + 'a\<close>, with \<open>Inl\<close> carrying the exception. Python \<^verbatim>\<open>float\<close>s are modelled by
  exact reals, Python \<^verbatim>\<open>str\<close> by \<^typ>\<open>string\<close>; the model is exact on ASCII text.
\<close>

datatype py_error =
  ZeroDivisionError | IndexError | ValueError | TypeError | AttributeError | ReError

text \<open>Running a list of computations in order; the first exception ends the loop.\<close>

fun collect :: "(py_error + 'a) list \<Rightarrow> py_error + 'a list" where
  "collect [] = Inr []"
| "collect (Inl e # xs) = Inl e"
| "collect (Inr x # xs) = (case collect xs of Inl e \<Rightarrow> Inl e | Inr ys \<Rightarrow> Inr (x # ys))"

subsection \<open>String methods\<close>

definition ascii_upper :: "char list" where
  "ascii_upper = ''ABCDEFGHIJKLMNOPQRSTUVWXYZ''"

definition ascii_lower :: "char list" where
  "ascii_lower = ''abcdefghijklmnopqrstuvwxyz''"

definition ascii_digits :: "char list" where
  "ascii_digits = ''0123456789''"

text \<open>The characters for which \<^verbatim>\<open>str.isspace\<close> holds: tab, newline, vertical tab, form feed,
  carriage return, the four separators \<open>0x1C\<close> to \<open>0x1F\<close>, and the space.\<close>

definition py_whitespace :: "char list" where
  "py_whitespace = [CHR 0x09, CHR 0x0A, CHR 0x0B, CHR 0x0C, CHR 0x0D,
                    CHR 0x1C, CHR 0x1D, CHR 0x1E, CHR 0x1F, CHR '' '']"

definition word_chars :: "char list" where
  "word_chars = ascii_lower @ ascii_upper @ ascii_digits @ ''_''"

fun translate :: "char list \<Rightarrow> char list \<Rightarrow> char \<Rightarrow> char" where
  "translate (a # as) (b # bs) c = (if c = a then b else translate as bs c)"
| "translate _ _ c = c"

definition lower_char :: "char \<Rightarrow> char" where
  "lower_char = translate ascii_upper ascii_lower"

definition upper_char :: "char \<Rightarrow> char" where
  "upper_char = translate ascii_lower ascii_upper"

definition py_lower :: "string \<Rightarrow> string" where
  "py_lower s = map lower_char s"

definition py_strip :: "string \<Rightarrow> string" where
  "py_strip s = rev (dropWhile (\<lambda>c. c \<in> set py_whitespace)
                  (rev (dropWhile (\<lambda>c. c \<in> set py_whitespace) s)))"

fun starts_with :: "'a list \<Rightarrow> 'a list \<Rightarrow> bool" where
  "starts_with [] s = True"
| "starts_with (a # as) [] = False"
| "starts_with (a # as) (c # cs) = (a = c \<and> starts_with as cs)"

text \<open>\<^verbatim>\<open>sub in s\<close> on strings: \<open>sub\<close> occurs in \<open>s\<close> as a contiguous block.\<close>

fun py_in :: "'a list \<Rightarrow> 'a list \<Rightarrow> bool" where
  "py_in sub [] = (sub = [])"
| "py_in sub (c # cs) = (starts_with sub (c # cs) \<or> py_in sub cs)"

text \<open>\<^verbatim>\<open>s.split()\<close>: the maximal runs of non-whitespace characters.\<close>

fun py_split_acc :: "string \<Rightarrow> string \<Rightarrow> string list" where
  "py_split_acc [] w = (if w = [] then [] else [rev w])"
| "py_split_acc (c # cs) w =
     (if c \<in> set py_whitespace
      then (if w = [] then py_split_acc cs [] else rev w # py_split_acc cs [])
      else py_split_acc cs (c # w))"

definition py_split :: "string \<Rightarrow> string list" where
  "py_split s = py_split_acc s []"

text \<open>\<^verbatim>\<open>s.split(sep)\<close> for a one-character separator: every separator ends a field.\<close>

fun py_split_on :: "char \<Rightarrow> string \<Rightarrow> string \<Rightarrow> string list" where
  "py_split_on sep [] w = [rev w]"
| "py_split_on sep (c # cs) w =
     (if c = sep then rev w # py_split_on sep cs [] else py_split_on sep cs (c # w))"

fun py_join :: "string \<Rightarrow> string list \<Rightarrow> string" where
  "py_join sep [] = []"
| "py_join sep [w] = w"
| "py_join sep (w # ws) = w @ sep @ py_join sep ws"

text \<open>\<^verbatim>\<open>s.title()\<close>: a letter that follows a letter is lower-cased, any other letter is
  upper-cased.\<close>

fun py_title_from :: "bool \<Rightarrow> string \<Rightarrow> string" where
  "py_title_from prev [] = []"
| "py_title_from prev (c # cs) =
     (if c \<in> set ascii_upper \<or> c \<in> set ascii_lower
      then (if prev then lower_char c else upper_char c) # py_title_from True cs
      else c # py_title_from False cs)"

definition py_title :: "string \<Rightarrow> string" where
  "py_title s = py_title_from False s"

subsection \<open>Number parsing\<close>

definition digit_val :: "char \<Rightarrow> nat" where
  "digit_val c = (case List.find (\<lambda>(d, n). d = c) (zip ascii_digits [0..<10]) of
                    Some (d, n) \<Rightarrow> n | None \<Rightarrow> 0)"

definition digits_val :: "string \<Rightarrow> nat" where
  "digits_val s = fold (\<lambda>c n. 10 * n + digit_val c) s 0"

definition all_digits :: "string \<Rightarrow> bool" where
  "all_digits s = (s \<noteq> [] \<and> list_all (\<lambda>c. c \<in> set ascii_digits) s)"

text \<open>\<^verbatim>\<open>int(s)\<close> and \<^verbatim>\<open>float(s)\<close> on the captures of the patterns below, which are decimal
  numerals \<open>ddd\<close> or \<open>ddd.ddd\<close>; \<open>None\<close> (a group that did not take part in the match) raises
  \<open>TypeError\<close>, any other text \<open>ValueError\<close>.\<close>

definition py_int :: "string option \<Rightarrow> py_error + int" where
  "py_int g = (case g of None \<Rightarrow> Inl TypeError
               | Some s \<Rightarrow> if all_digits s then Inr (int (digits_val s)) else Inl ValueError)"

definition py_float :: "string option \<Rightarrow> py_error + real" where
  "py_float g =
     (case g of None \<Rightarrow> Inl TypeError
      | Some s \<Rightarrow>
          let ip = takeWhile (\<lambda>c. c \<noteq> CHR ''.'') s;
              rest = dropWhile (\<lambda>c. c \<noteq> CHR ''.'') s
          in if rest = [] then (if all_digits ip then Inr (real (digits_val ip)) else Inl ValueError)
             else let fp = tl rest
                  in if (ip = [] \<or> all_digits ip) \<and> (fp = [] \<or> all_digits fp) \<and> (ip \<noteq> [] \<or> fp \<noteq> [])
                     then Inr (real (digits_val ip) + real (digits_val fp) / 10 ^ length fp)
                     else Inl ValueError)"

section \<open>Regular expressions\<close>

text \<open>
  The \<^verbatim>\<open>re\<close> module is a backtracking matcher. A pattern is represented by its syntax tree;
  \<open>rx_m\<close> returns every way the pattern can match at a position, in the order in which the
  backtracking matcher tries them (greedy repetition first, left alternative first), so
  the head of the list is the match \<^verbatim>\<open>re\<close> reports. The flag \<open>ci\<close> is \<^verbatim>\<open>re.IGNORECASE\<close>, the
  flag \<open>ml\<close> is \<^verbatim>\<open>re.MULTILINE\<close>.
\<close>

datatype rx =
    In "char list"
  | NotIn "char list"
  | Eps
  | Seq rx rx
  | Alt rx rx
  | Rep nat "nat option" rx
  | Grp nat rx
  | WordB
  | Bol
  | Eol

type_synonym caps = "(nat \<times> nat \<times> nat) list"

record rx_flags =
  ci :: bool
  ml :: bool

definition in_class :: "bool \<Rightarrow> char list \<Rightarrow> char \<Rightarrow> bool" where
  "in_class ic cs c =
     (c \<in> set cs \<or> (ic \<and> (lower_char c \<in> set cs \<or> upper_char c \<in> set cs)))"

definition at_word_boundary :: "string \<Rightarrow> nat \<Rightarrow> bool" where
  "at_word_boundary t i =
     ((i > 0 \<and> t ! (i - 1) \<in> set word_chars) \<noteq> (i < length t \<and> t ! i \<in> set word_chars))"

definition at_bol :: "bool \<Rightarrow> string \<Rightarrow> nat \<Rightarrow> bool" where
  "at_bol m t i = (i = 0 \<or> (m \<and> i \<le> length t \<and> t ! (i - 1) = CHR 0x0A))"

definition at_eol :: "bool \<Rightarrow> string \<Rightarrow> nat \<Rightarrow> bool" where
  "at_eol m t i =
     (i = length t \<or> (i + 1 = length t \<and> t ! i = CHR 0x0A) \<or>
      (m \<and> i < length t \<and> t ! i = CHR 0x0A))"

text \<open>Greedy repetition \<open>{lo,hi}\<close> of a matcher \<open>f\<close>: one more round first, then stopping.
  Every round consumes a character, so \<open>length t\<close> rounds of fuel are enough.\<close>

fun rx_rep ::
  "(nat \<Rightarrow> caps \<Rightarrow> (nat \<times> caps) list) \<Rightarrow> nat \<Rightarrow> nat option \<Rightarrow> nat \<Rightarrow> nat \<Rightarrow> caps
     \<Rightarrow> (nat \<times> caps) list" where
  "rx_rep f lo hi 0 i c = (if lo = 0 then [(i, c)] else [])"
| "rx_rep f lo hi (Suc fuel) i c =
     (if hi = Some 0 then []
      else concat (map (\<lambda>(j, c'). if j = i then []
                                   else rx_rep f (lo - 1) (map_option (\<lambda>h. h - 1) hi) fuel j c')
                       (f i c)))
     @ (if lo = 0 then [(i, c)] else [])"

primrec rx_m :: "rx \<Rightarrow> rx_flags \<Rightarrow> string \<Rightarrow> nat \<Rightarrow> caps \<Rightarrow> (nat \<times> caps) list" where
  "rx_m (In cs) fl t i c = (if i < length t \<and> in_class (ci fl) cs (t ! i) then [(i + 1, c)] else [])"
| "rx_m (NotIn cs) fl t i c =
     (if i < length t \<and> \<not> in_class (ci fl) cs (t ! i) then [(i + 1, c)] else [])"
| "rx_m Eps fl t i c = [(i, c)]"
| "rx_m (Seq a b) fl t i c = concat (map (\<lambda>(j, c'). rx_m b fl t j c') (rx_m a fl t i c))"
| "rx_m (Alt a b) fl t i c = rx_m a fl t i c @ rx_m b fl t i c"
| "rx_m (Rep lo hi a) fl t i c = rx_rep (rx_m a fl t) lo hi (length t) i c"
| "rx_m (Grp n a) fl t i c = map (\<lambda>(j, c'). (j, (n, i, j) # c')) (rx_m a fl t i c)"
| "rx_m WordB fl t i c = (if at_word_boundary t i then [(i, c)] else [])"
| "rx_m Bol fl t i c = (if at_bol (ml fl) t i then [(i, c)] else [])"
| "rx_m Eol fl t i c = (if at_eol (ml fl) t i then [(i, c)] else [])"

text \<open>A match object: start, end and the captured groups.\<close>

record rx_match =
  m_start :: nat
  m_end :: nat
  m_caps :: caps

definition rx_match_at :: "rx \<Rightarrow> rx_flags \<Rightarrow> string \<Rightarrow> nat \<Rightarrow> rx_match option" where
  "rx_match_at r fl t i =
     (case rx_m r fl t i [] of [] \<Rightarrow> None
      | (j, c) # _ \<Rightarrow> Some \<lparr>m_start = i, m_end = j, m_caps = c\<rparr>)"

text \<open>\<^verbatim>\<open>pattern.search(text, pos)\<close>: the match at the leftmost position that has one.\<close>

fun rx_scan :: "rx \<Rightarrow> rx_flags \<Rightarrow> string \<Rightarrow> nat \<Rightarrow> nat \<Rightarrow> rx_match option" where
  "rx_scan r fl t 0 i = None"
| "rx_scan r fl t (Suc n) i =
     (case rx_match_at r fl t i of Some m \<Rightarrow> Some m | None \<Rightarrow> rx_scan r fl t n (Suc i))"

definition re_search_from :: "rx \<Rightarrow> rx_flags \<Rightarrow> string \<Rightarrow> nat \<Rightarrow> rx_match option" where
  "re_search_from r fl t i = rx_scan r fl t (Suc (length t) - i) i"

definition re_search :: "rx \<Rightarrow> rx_flags \<Rightarrow> string \<Rightarrow> rx_match option" where
  "re_search r fl t = re_search_from r fl t 0"

text \<open>\<^verbatim>\<open>pattern.finditer(text)\<close>: the successive non-overlapping matches, left to right. After
  an empty match the scan resumes one character later.\<close>

fun rx_iter :: "rx \<Rightarrow> rx_flags \<Rightarrow> string \<Rightarrow> nat \<Rightarrow> nat \<Rightarrow> rx_match list" where
  "rx_iter r fl t 0 i = []"
| "rx_iter r fl t (Suc n) i =
     (case re_search_from r fl t i of None \<Rightarrow> []
      | Some m \<Rightarrow> m # rx_iter r fl t n (if m_end m = m_start m then m_end m + 1 else m_end m))"

definition re_finditer :: "rx \<Rightarrow> rx_flags \<Rightarrow> string \<Rightarrow> rx_match list" where
  "re_finditer r fl t = rx_iter r fl t (Suc (length t)) 0"

text \<open>\<^verbatim>\<open>match.group(0)\<close> and \<^verbatim>\<open>match.group(n)\<close>: the text of the whole match and of the last
  capture of group \<open>n\<close> (\<open>None\<close> when the group took no part).\<close>

definition slice :: "string \<Rightarrow> nat \<Rightarrow> nat \<Rightarrow> string" where
  "slice t a b = take (b - a) (drop a t)"

definition group0 :: "string \<Rightarrow> rx_match \<Rightarrow> string" where
  "group0 t m = slice t (m_start m) (m_end m)"

definition group :: "string \<Rightarrow> rx_match \<Rightarrow> nat \<Rightarrow> string option" where
  "group t m n = (case map_of (m_caps m) n of None \<Rightarrow> None | Some (a, b) \<Rightarrow> Some (slice t a b))"

text \<open>\<^verbatim>\<open>re.sub(pattern, repl, text)\<close> for a replacement without group references.\<close>

fun sub_pieces :: "string \<Rightarrow> string \<Rightarrow> nat \<Rightarrow> rx_match list \<Rightarrow> string" where
  "sub_pieces repl t pos [] = drop pos t"
| "sub_pieces repl t pos (m # ms) = slice t pos (m_start m) @ repl @ sub_pieces repl t (m_end m) ms"

definition re_sub :: "rx \<Rightarrow> rx_flags \<Rightarrow> string \<Rightarrow> string \<Rightarrow> string" where
  "re_sub r fl repl t = sub_pieces repl t 0 (re_finditer r fl t)"

subsection \<open>Pattern syntax\<close>

definition lit :: "string \<Rightarrow> rx" where
  "lit s = foldr (\<lambda>c r. Seq (In [c]) r) s Eps"

abbreviation rx_digit :: rx where "rx_digit \<equiv> In ascii_digits"
abbreviation rx_space :: rx where "rx_space \<equiv> In py_whitespace"
abbreviation rx_opt :: "rx \<Rightarrow> rx" where "rx_opt r \<equiv> Rep 0 (Some 1) r"
abbreviation rx_star :: "rx \<Rightarrow> rx" where "rx_star r \<equiv> Rep 0 None r"
abbreviation rx_plus :: "rx \<Rightarrow> rx" where "rx_plus r \<equiv> Rep 1 None r"

fun seqs :: "rx list \<Rightarrow> rx" where
  "seqs [] = Eps"
| "seqs [r] = r"
| "seqs (r # rs) = Seq r (seqs rs)"

fun alts :: "rx list \<Rightarrow> rx" where
  "alts [] = Eps"
| "alts [r] = r"
| "alts (r # rs) = Alt r (alts rs)"

definition flags_none :: rx_flags where "flags_none = \<lparr>ci = False, ml = False\<rparr>"
definition flags_i :: rx_flags where "flags_i = \<lparr>ci = True, ml = False\<rparr>"
definition flags_m :: rx_flags where "flags_m = \<lparr>ci = False, ml = True\<rparr>"

section \<open>Phase 1: the regex deal parser\<close>

datatype DealType =
  PRICE | UNIT_PRICE | MULTI_BUY | BOGO | SAVE_AMOUNT | PERCENT_OFF | MEMBER_PRICE | UNKNOWN

fun deal_type_value :: "DealType \<Rightarrow> string" where
  "deal_type_value PRICE = ''price''"
| "deal_type_value UNIT_PRICE = ''unit_price''"
| "deal_type_value MULTI_BUY = ''multi_buy''"
| "deal_type_value BOGO = ''bogo''"
| "deal_type_value SAVE_AMOUNT = ''save_amount''"
| "deal_type_value PERCENT_OFF = ''percent_off''"
| "deal_type_value MEMBER_PRICE = ''member_price''"
| "deal_type_value UNKNOWN = ''unknown''"

datatype pyval = PStr string | PInt int | PFloat real | PNone

record ExtractedDeal =
  raw_text :: string
  deal_type :: DealType
  product_name :: "string option"
  price :: "real option"
  unit :: "string option"
  quantity :: "int option"
  discount_amount :: "real option"
  discount_percent :: "real option"
  original_price :: "real option"
  confidence :: real
  position :: "nat \<times> nat"
  metadata :: "(string \<times> pyval) list"

text \<open>The dataclass constructor with its defaults.\<close>

definition new_deal :: "string \<Rightarrow> DealType \<Rightarrow> ExtractedDeal" where
  "new_deal rt dt =
     \<lparr>raw_text = rt, deal_type = dt, product_name = None, price = None, unit = None,
      quantity = None, discount_amount = None, discount_percent = None,
      original_price = None, confidence = 0, position = (0, 0), metadata = []\<rparr>"

text \<open>Truth values of optional strings and numbers: \<open>None\<close>, the empty string and zero are
  false.\<close>

definition truthy_str :: "string option \<Rightarrow> bool" where
  "truthy_str s = (case s of None \<Rightarrow> False | Some x \<Rightarrow> x \<noteq> [])"

definition truthy_real :: "real option \<Rightarrow> bool" where
  "truthy_real p = (case p of None \<Rightarrow> False | Some x \<Rightarrow> x \<noteq> 0)"

definition truthy_int :: "int option \<Rightarrow> bool" where
  "truthy_int p = (case p of None \<Rightarrow> False | Some x \<Rightarrow> x \<noteq> 0)"

subsection \<open>The pattern tables\<close>

text \<open>\<^verbatim>\<open>\$(\d+(?:\.\d{2})?)\<close> with its capture numbered \<open>n\<close>.\<close>

definition rx_money :: "nat \<Rightarrow> rx" where
  "rx_money n =
     Seq (In ''$'') (Grp n (Seq (rx_plus rx_digit)
                                (rx_opt (Seq (In ''.'') (Rep 2 (Some 2) rx_digit)))))"

text \<open>\<^verbatim>\<open>PRICE_PATTERNS\<close>, the more specific patterns first:
  \<^verbatim>\<open>\$(\d+(?:\.\d{2})?)\s*/\s*(?:lb|pound|lbs)\<close>,
  \<^verbatim>\<open>\$(\d+(?:\.\d{2})?)\s*/\s*(?:oz|ounce)\<close>,
  \<^verbatim>\<open>\$(\d+(?:\.\d{2})?)\s*/\s*(?:kg|kilogram)\<close>,
  \<^verbatim>\<open>\$(\d+(?:\.\d{2})?)\s*(?:ea|each)\<close> and
  \<^verbatim>\<open>\$(\d+(?:\.\d{2})?)\<close>.\<close>

definition PRICE_PATTERNS :: "(rx \<times> string) list" where
  "PRICE_PATTERNS =
     [(seqs [rx_money 1, rx_star rx_space, In ''/'', rx_star rx_space,
             alts [lit ''lb'', lit ''pound'', lit ''lbs'']], ''unit_price_lb''),
      (seqs [rx_money 1, rx_star rx_space, In ''/'', rx_star rx_space,
             alts [lit ''oz'', lit ''ounce'']], ''unit_price_oz''),
      (seqs [rx_money 1, rx_star rx_space, In ''/'', rx_star rx_space,
             alts [lit ''kg'', lit ''kilogram'']], ''unit_price_kg''),
      (seqs [rx_money 1, rx_star rx_space, alts [lit ''ea'', lit ''each'']], ''unit_price_each''),
      (rx_money 1, ''price'')]"

text \<open>\<^verbatim>\<open>MULTI_BUY_PATTERNS\<close>:
  \<^verbatim>\<open>(\d+)\s*(?:for|/)\s*\$(\d+(?:\.\d{2})?)\<close> and
  \<^verbatim>\<open>buy\s+(\d+)\s+(?:for|@)\s*\$(\d+(?:\.\d{2})?)\<close>.\<close>

definition MULTI_BUY_PATTERNS :: "(rx \<times> string) list" where
  "MULTI_BUY_PATTERNS =
     [(seqs [Grp 1 (rx_plus rx_digit), rx_star rx_space, alts [lit ''for'', lit ''/''],
             rx_star rx_space, rx_money 2], ''multi_buy''),
      (seqs [lit ''buy'', rx_plus rx_space, Grp 1 (rx_plus rx_digit), rx_plus rx_space,
             alts [lit ''for'', lit ''@''], rx_star rx_space, rx_money 2], ''multi_buy'')]"

text \<open>\<^verbatim>\<open>BOGO_PATTERNS\<close>:
  \<^verbatim>\<open>buy\s+(\d+)\s+get\s+(\d+)\s+free\<close>,
  \<^verbatim>\<open>b(?:uy\s*)?(\d)g(?:et\s*)?(\d)f(?:ree)?\<close> and
  \<^verbatim>\<open>\bbogo\b\<close>.\<close>

definition BOGO_PATTERNS :: "(rx \<times> string) list" where
  "BOGO_PATTERNS =
     [(seqs [lit ''buy'', rx_plus rx_space, Grp 1 (rx_plus rx_digit), rx_plus rx_space,
             lit ''get'', rx_plus rx_space, Grp 2 (rx_plus rx_digit), rx_plus rx_space,
             lit ''free''], ''bogo''),
      (seqs [lit ''b'', rx_opt (Seq (lit ''uy'') (rx_star rx_space)), Grp 1 rx_digit,
             lit ''g'', rx_opt (Seq (lit ''et'') (rx_star rx_space)), Grp 2 rx_digit,
             lit ''f'', rx_opt (lit ''ree'')], ''bogo_short''),
      (seqs [WordB, lit ''bogo'', WordB], ''bogo_simple'')]"

text \<open>\<^verbatim>\<open>DISCOUNT_PATTERNS\<close>:
  \<^verbatim>\<open>save\s+\$(\d+(?:\.\d{2})?)\<close>,
  \<^verbatim>\<open>(\d+(?:\.\d{1,2})?)\s*%\s*off\<close> and
  \<^verbatim>\<open>\$(\d+(?:\.\d{2})?)\s*off\<close>.\<close>

definition DISCOUNT_PATTERNS :: "(rx \<times> string) list" where
  "DISCOUNT_PATTERNS =
     [(seqs [lit ''save'', rx_plus rx_space, rx_money 1], ''save_amount''),
      (seqs [Grp 1 (Seq (rx_plus rx_digit) (rx_opt (Seq (In ''.'') (Rep 1 (Some 2) rx_digit)))),
             rx_star rx_space, In ''%'', rx_star rx_space, lit ''off''], ''percent_off''),
      (seqs [rx_money 1, rx_star rx_space, lit ''off''], ''dollar_off'')]"

text \<open>\<^verbatim>\<open>PRODUCT_PATTERNS\<close>:
  \<^verbatim>\<open>([A-Z][A-Z\s]{3,30})\<close>,
  \<^verbatim>\<open>([A-Za-z][A-Za-z\s\']{2,30})\s*\$\<close> and, after a bullet or a dash and \<^verbatim>\<open>\s*\<close>,
  \<^verbatim>\<open>([A-Za-z][A-Za-z\s\']{2,30})\<close>.
  They are compiled with \<^verbatim>\<open>re.IGNORECASE\<close> like all the others, so \<^verbatim>\<open>[A-Z]\<close> accepts
  lower-case letters too. The bullet of the third pattern is not an ASCII character; only
  its dash alternative is represented.\<close>

definition PRODUCT_PATTERNS :: "(rx \<times> string) list" where
  "PRODUCT_PATTERNS =
     [(Grp 1 (Seq (In ascii_upper) (Rep 3 (Some 30) (In (ascii_upper @ py_whitespace)))),
       ''caps_product''),
      (seqs [Grp 1 (Seq (In (ascii_upper @ ascii_lower))
                        (Rep 2 (Some 30) (In (ascii_upper @ ascii_lower @ py_whitespace @ [CHR 0x27])))),
             rx_star rx_space, In ''$''], ''product_before_price''),
      (seqs [In ''-'', rx_star rx_space,
             Grp 1 (Seq (In (ascii_upper @ ascii_lower))
                        (Rep 2 (Some 30) (In (ascii_upper @ ascii_lower @ py_whitespace @ [CHR 0x27]))))],
       ''bulleted_product'')]"

text \<open>\<^verbatim>\<open>STORE_PATTERNS\<close>, where \<open>M\<close> stands for the money pattern above; \<open>rx_colon_space\<close> is
  \<^verbatim>\<open>[:\s]+\<close>. For costco
  \<^verbatim>\<open>(?:manufacturer\'s?\s+)?instant\s+savings?\s+M\<close> and \<^verbatim>\<open>after\s+(?:instant\s+)?savings?\s+M\<close>,
  for whole_foods \<^verbatim>\<open>prime\s+member\s+deal[:\s]+M\<close> and \<^verbatim>\<open>sale[:\s]+M\<close>,
  for safeway \<^verbatim>\<open>club\s+price[:\s]+M\<close> and \<^verbatim>\<open>just\s+for\s+u[:\s]+M\<close>,
  for walmart \<^verbatim>\<open>rollback[:\s]+M\<close> and \<^verbatim>\<open>was\s+M\s*now\s+M\<close>.\<close>

definition rx_colon_space :: rx where
  "rx_colon_space = rx_plus (In ('':'' @ py_whitespace))"

definition STORE_PATTERNS :: "(string \<times> (rx \<times> string) list) list" where
  "STORE_PATTERNS =
     [(''costco'',
        [(seqs [rx_opt (seqs [lit ''manufacturer'', In [CHR 0x27], rx_opt (lit ''s''), rx_plus rx_space]),
                lit ''instant'', rx_plus rx_space, lit ''saving'', rx_opt (lit ''s''),
                rx_plus rx_space, rx_money 1], ''instant_savings''),
         (seqs [lit ''after'', rx_plus rx_space, rx_opt (Seq (lit ''instant'') (rx_plus rx_space)),
                lit ''saving'', rx_opt (lit ''s''), rx_plus rx_space, rx_money 1], ''after_savings'')]),
      (''whole_foods'',
        [(seqs [lit ''prime'', rx_plus rx_space, lit ''member'', rx_plus rx_space, lit ''deal'',
                rx_colon_space, rx_money 1], ''prime_deal''),
         (seqs [lit ''sale'', rx_colon_space, rx_money 1], ''sale_price'')]),
      (''safeway'',
        [(seqs [lit ''club'', rx_plus rx_space, lit ''price'', rx_colon_space, rx_money 1],
          ''club_price''),
         (seqs [lit ''just'', rx_plus rx_space, lit ''for'', rx_plus rx_space, lit ''u'',
                rx_colon_space, rx_money 1], ''j4u_price'')]),
      (''walmart'',
        [(seqs [lit ''rollback'', rx_colon_space, rx_money 1], ''rollback''),
         (seqs [lit ''was'', rx_plus rx_space, rx_money 1, rx_star rx_space, lit ''now'',
                rx_plus rx_space, rx_money 2], ''was_now'')])]"

subsection \<open>Extraction\<close>

text \<open>\<^verbatim>\<open>_clean_text\<close>: the three substitutions in dictionary order (the cent sign by
  \<^verbatim>\<open> cents\<close>, \<^verbatim>\<open>\s{2,}\<close> by one space, \<^verbatim>\<open>\n{3,}\<close> by two newlines), then \<^verbatim>\<open>strip\<close>.\<close>

definition clean_text :: "string \<Rightarrow> string" where
  "clean_text text =
     (let cleaned = re_sub (In [CHR 0xA2]) flags_none '' cents'' text;
          cleaned = re_sub (Rep 2 None rx_space) flags_none '' '' cleaned;
          cleaned = re_sub (Rep 3 None (In [CHR 0x0A])) flags_none [CHR 0x0A, CHR 0x0A] cleaned
      in py_strip cleaned)"

definition price_label_kind :: "string \<Rightarrow> DealType \<times> string option" where
  "price_label_kind label =
     (if py_in ''lb'' label then (UNIT_PRICE, Some ''lb'')
      else if py_in ''oz'' label then (UNIT_PRICE, Some ''oz'')
      else if py_in ''each'' label then (UNIT_PRICE, Some ''ea'')
      else if py_in ''kg'' label then (UNIT_PRICE, Some ''kg'')
      else (PRICE, None))"

definition extract_prices :: "string \<Rightarrow> py_error + ExtractedDeal list" where
  "extract_prices text =
     collect (concat (map (\<lambda>(regex, label).
        map (\<lambda>m. case py_float (group text m 1) of
                    Inl e \<Rightarrow> Inl e
                  | Inr p \<Rightarrow>
                      Inr ((new_deal (group0 text m) (fst (price_label_kind label)))
                        \<lparr>price := Some p, unit := snd (price_label_kind label),
                         position := (m_start m, m_end m),
                         metadata := [(''pattern'', PStr label)]\<rparr>))
            (re_finditer regex flags_i text)) PRICE_PATTERNS))"

text \<open>\<^verbatim>\<open>_extract_multi_buy\<close>: the unit price is \<^verbatim>\<open>total_price / quantity\<close>, a float divided by an
  int, which raises \<open>ZeroDivisionError\<close> when the quantity is zero.\<close>

definition extract_multi_buy :: "string \<Rightarrow> py_error + ExtractedDeal list" where
  "extract_multi_buy text =
     collect (concat (map (\<lambda>(regex, label).
        map (\<lambda>m. case py_int (group text m 1) of
                    Inl e \<Rightarrow> Inl e
                  | Inr qty \<Rightarrow>
                     (case py_float (group text m 2) of
                        Inl e \<Rightarrow> Inl e
                      | Inr total_price \<Rightarrow>
                          if qty = 0 then Inl ZeroDivisionError
                          else Inr ((new_deal (group0 text m) MULTI_BUY)
                            \<lparr>price := Some (total_price / real_of_int qty), quantity := Some qty,
                             position := (m_start m, m_end m),
                             metadata := [(''pattern'', PStr label),
                                          (''total_price'', PFloat total_price)]\<rparr>)))
            (re_finditer regex flags_i text)) MULTI_BUY_PATTERNS))"

definition extract_bogo :: "string \<Rightarrow> py_error + ExtractedDeal list" where
  "extract_bogo text =
     collect (concat (map (\<lambda>(regex, label).
        map (\<lambda>m. case (if label = ''bogo'' \<or> label = ''bogo_short''
                        then (case py_int (group text m 1) of
                                Inl e \<Rightarrow> Inl e
                              | Inr b \<Rightarrow> (case py_int (group text m 2) of
                                            Inl e \<Rightarrow> Inl e | Inr g \<Rightarrow> Inr (b, g)))
                        else Inr (1, 1)) of
                    Inl e \<Rightarrow> Inl e
                  | Inr (buy_qty, get_qty) \<Rightarrow>
                      Inr ((new_deal (group0 text m) BOGO)
                        \<lparr>quantity := Some buy_qty, position := (m_start m, m_end m),
                         metadata := [(''pattern'', PStr label), (''buy_quantity'', PInt buy_qty),
                                      (''get_quantity'', PInt get_qty)]\<rparr>))
            (re_finditer regex flags_i text)) BOGO_PATTERNS))"

definition extract_discounts :: "string \<Rightarrow> py_error + ExtractedDeal list" where
  "extract_discounts text =
     collect (concat (map (\<lambda>(regex, label).
        concat (map (\<lambda>m.
            if label = ''save_amount'' \<or> label = ''dollar_off''
            then [case py_float (group text m 1) of
                    Inl e \<Rightarrow> Inl e
                  | Inr amount \<Rightarrow>
                      Inr ((new_deal (group0 text m) SAVE_AMOUNT)
                        \<lparr>discount_amount := Some amount, position := (m_start m, m_end m),
                         metadata := [(''pattern'', PStr label)]\<rparr>)]
            else if label = ''percent_off''
            then [case py_float (group text m 1) of
                    Inl e \<Rightarrow> Inl e
                  | Inr percent \<Rightarrow>
                      Inr ((new_deal (group0 text m) PERCENT_OFF)
                        \<lparr>discount_percent := Some percent, position := (m_start m, m_end m),
                         metadata := [(''pattern'', PStr label)]\<rparr>)]
            else [])
          (re_finditer regex flags_i text))) DISCOUNT_PATTERNS))"

definition extract_store_specific :: "string \<Rightarrow> string \<Rightarrow> py_error + ExtractedDeal list" where
  "extract_store_specific store_hint text =
     (case map_of STORE_PATTERNS store_hint of
        None \<Rightarrow> Inr []
      | Some patterns \<Rightarrow>
          collect (concat (map (\<lambda>(regex, label).
            map (\<lambda>m.
               if label = ''was_now''
               then (case py_float (group text m 1) of
                       Inl e \<Rightarrow> Inl e
                     | Inr was_price \<Rightarrow>
                        (case py_float (group text m 2) of
                           Inl e \<Rightarrow> Inl e
                         | Inr now_price \<Rightarrow>
                             Inr ((new_deal (group0 text m) PRICE)
                               \<lparr>price := Some now_price, discount_amount := Some (was_price - now_price),
                                original_price := Some was_price,
                                position := (m_start m, m_end m),
                                metadata := [(''pattern'', PStr label), (''store'', PStr store_hint)]\<rparr>)))
               else (case py_float (group text m 1) of
                       Inl e \<Rightarrow> Inl e
                     | Inr p \<Rightarrow>
                         Inr ((new_deal (group0 text m)
                                (if py_in ''prime'' label \<or> py_in ''club'' label
                                 then MEMBER_PRICE else PRICE))
                           \<lparr>price := Some p, position := (m_start m, m_end m),
                            metadata := [(''pattern'', PStr label), (''store'', PStr store_hint)]\<rparr>)))
              (re_finditer regex flags_i text)) patterns)))"

subsection \<open>Product association\<close>

record product_candidate =
  pc_name :: string
  pc_position :: "nat \<times> nat"
  pc_label :: string

text \<open>\<^verbatim>\<open>_clean_product_name\<close>: white space normalised, the characters that match
  \<^verbatim>\<open>[^\w\s\'-]\<close> removed, title case, at most 50 characters.\<close>

definition clean_product_name :: "string \<Rightarrow> string" where
  "clean_product_name name =
     (let cleaned = py_join '' '' (py_split name);
          cleaned = re_sub (NotIn (word_chars @ py_whitespace @ [CHR 0x27, CHR ''-''])) flags_none [] cleaned;
          cleaned = py_title cleaned
      in take 50 cleaned)"

definition product_candidates :: "string \<Rightarrow> py_error + product_candidate list" where
  "product_candidates text =
     collect (concat (map (\<lambda>(regex, label).
        map (\<lambda>m. case group text m 1 of
                    None \<Rightarrow> Inl TypeError
                  | Some g \<Rightarrow> Inr \<lparr>pc_name = py_strip g, pc_position = (m_start m, m_end m),
                                   pc_label = label\<rparr>)
            (re_finditer regex flags_i text)) PRODUCT_PATTERNS))"

text \<open>The inner loop of \<^verbatim>\<open>_associate_products\<close>: the candidate that ends closest before the
  deal, within fewer than 100 characters; the first one wins a tie.\<close>

definition closest_step ::
  "nat \<Rightarrow> product_candidate \<Rightarrow> product_candidate option \<times> nat \<Rightarrow> product_candidate option \<times> nat" where
  "closest_step deal_start product st =
     (case st of (closest_product, min_distance) \<Rightarrow>
        if snd (pc_position product) \<le> deal_start
        then (let distance = deal_start - snd (pc_position product)
              in if distance < min_distance then (Some product, distance)
                 else (closest_product, min_distance))
        else (closest_product, min_distance))"

definition associate_one :: "product_candidate list \<Rightarrow> ExtractedDeal \<Rightarrow> ExtractedDeal" where
  "associate_one cands deal =
     (case fst (fold (closest_step (fst (position deal))) cands (None, 100)) of
        None \<Rightarrow> deal
      | Some p \<Rightarrow> deal\<lparr>product_name := Some (clean_product_name (pc_name p))\<rparr>)"

definition associate_products :: "string \<Rightarrow> ExtractedDeal list \<Rightarrow> py_error + ExtractedDeal list" where
  "associate_products text deals =
     (case product_candidates text of
        Inl e \<Rightarrow> Inl e
      | Inr cands \<Rightarrow> Inr (map (associate_one cands) deals))"

subsection \<open>Deduplication and confidence\<close>

definition positions_overlap :: "nat \<times> nat \<Rightarrow> nat \<times> nat \<Rightarrow> bool" where
  "positions_overlap pos1 pos2 = (\<not> (snd pos1 < fst pos2 \<or> snd pos2 < fst pos1))"

definition deal_info_score :: "ExtractedDeal \<Rightarrow> nat" where
  "deal_info_score deal =
     (if truthy_str (product_name deal) then 3 else 0) +
     (if truthy_real (price deal) then 2 else 0) +
     (if truthy_str (unit deal) then 1 else 0) +
     (if truthy_real (discount_amount deal) \<or> truthy_real (discount_percent deal) then 1 else 0) +
     (if truthy_real (original_price deal) then 1 else 0)"

text \<open>One round of the loop of \<^verbatim>\<open>_deduplicate_deals\<close>: only the first overlapping survivor is
  looked at (the inner loop breaks there); \<^verbatim>\<open>list.remove\<close> deletes the first equal element.\<close>

definition dedup_step :: "ExtractedDeal \<Rightarrow> ExtractedDeal list \<Rightarrow> ExtractedDeal list" where
  "dedup_step deal unique_deals =
     (case List.find (\<lambda>existing. positions_overlap (position deal) (position existing)) unique_deals of
        None \<Rightarrow> unique_deals @ [deal]
      | Some existing \<Rightarrow>
          if deal_info_score deal > deal_info_score existing
          then remove1 existing unique_deals @ [deal]
          else unique_deals)"

definition deduplicate_deals :: "ExtractedDeal list \<Rightarrow> ExtractedDeal list" where
  "deduplicate_deals deals =
     (if deals = [] then deals
      else fold dedup_step (sort_key (\<lambda>d. fst (position d)) deals) [])"

definition regex_confidence :: "ExtractedDeal \<Rightarrow> real" where
  "regex_confidence deal =
     (let confidence = 3 / 10;
          confidence = (if truthy_str (product_name deal) then confidence + 2 / 10 else confidence);
          confidence = (if truthy_real (price deal) \<and> the (price deal) > 0
                        then confidence + 15 / 100 else confidence);
          confidence = (if deal_type deal \<noteq> UNKNOWN then confidence + 1 / 10 else confidence);
          confidence = (if truthy_str (unit deal) \<or> truthy_int (quantity deal)
                        then confidence + 1 / 10 else confidence);
          confidence = (if map_of (metadata deal) ''store'' \<noteq> None
                        then confidence + 15 / 100 else confidence)
      in min confidence 1)"

definition regex_calculate_confidence :: "ExtractedDeal list \<Rightarrow> ExtractedDeal list" where
  "regex_calculate_confidence deals = map (\<lambda>deal. deal\<lparr>confidence := regex_confidence deal\<rparr>) deals"

subsection \<open>\<^verbatim>\<open>RegexDealParser.parse\<close>\<close>

text \<open>The parser object holds only its store hint, lower-cased by the constructor.\<close>

definition regex_parse :: "string option \<Rightarrow> string \<Rightarrow> py_error + ExtractedDeal list" where
  "regex_parse store_hint text =
     (let cleaned_text = clean_text text
      in case extract_prices cleaned_text of Inl e \<Rightarrow> Inl e | Inr d1 \<Rightarrow>
         case extract_multi_buy cleaned_text of Inl e \<Rightarrow> Inl e | Inr d2 \<Rightarrow>
         case extract_bogo cleaned_text of Inl e \<Rightarrow> Inl e | Inr d3 \<Rightarrow>
         case extract_discounts cleaned_text of Inl e \<Rightarrow> Inl e | Inr d4 \<Rightarrow>
         case (if truthy_str store_hint \<and> map_of STORE_PATTERNS (the store_hint) \<noteq> None
               then extract_store_specific (the store_hint) cleaned_text else Inr []) of
           Inl e \<Rightarrow> Inl e | Inr d5 \<Rightarrow>
         case associate_products cleaned_text (d1 @ d2 @ d3 @ d4 @ d5) of
           Inl e \<Rightarrow> Inl e
         | Inr deals \<Rightarrow> Inr (regex_calculate_confidence (deduplicate_deals deals)))"

definition RegexDealParser_init :: "string option \<Rightarrow> string option" where
  "RegexDealParser_init store_hint =
     (if truthy_str store_hint then Some (py_lower (the store_hint)) else None)"

section \<open>Phase 2: the template deal parser\<close>

record LayoutRegion =
  region_name :: string
  x_start :: real
  x_end :: real
  y_start :: real
  y_end :: real
  contains :: string

text \<open>A learned custom pattern is a dictionary from strings to strings.\<close>

type_synonym str_dict = "(string \<times> string) list"

record StoreTemplate =
  store_name :: string
  layout_type :: string
  regions :: "LayoutRegion list"
  price_pattern :: "string option"
  product_pattern :: "string option"
  deal_separator :: string
  columns :: int
  has_header :: bool
  has_member_prices :: bool
  sample_count :: int
  accuracy :: real
  last_updated :: "string option"
  custom_patterns :: "str_dict list"

definition new_template :: "string \<Rightarrow> StoreTemplate" where
  "new_template name =
     \<lparr>store_name = name, layout_type = ''grid'', regions = [], price_pattern = None,
      product_pattern = None, deal_separator = [CHR 0x0A], columns = 1, has_header = True,
      has_member_prices = False, sample_count = 0, accuracy = 0, last_updated = None,
      custom_patterns = []\<rparr>"

definition new_region :: "string \<Rightarrow> real \<Rightarrow> real \<Rightarrow> real \<Rightarrow> real \<Rightarrow> string \<Rightarrow> LayoutRegion" where
  "new_region n xs xe ys ye c =
     \<lparr>region_name = n, x_start = xs, x_end = xe, y_start = ys, y_end = ye, contains = c\<rparr>"

text \<open>Pattern strings are written with \<open>esc\<close> for the backslash: \<open>esc ''d+''\<close> is a backslash
  followed by \<^verbatim>\<open>d+\<close>.\<close>

definition esc :: "string \<Rightarrow> string" where
  "esc s = CHR 0x5C # s"

definition DEFAULT_TEMPLATES :: "(string \<times> StoreTemplate) list" where
  "DEFAULT_TEMPLATES =
     [(''costco'', (new_template ''costco'')
         \<lparr>layout_type := ''grid'', columns := 2, has_header := True, has_member_prices := True,
          regions := [new_region ''header'' 0 1 0 (1 / 10) ''header'',
                      new_region ''main_deals'' 0 1 (1 / 10) (85 / 100) ''deals'',
                      new_region ''footer'' 0 1 (85 / 100) 1 ''footer''],
          price_pattern := Some (esc ''$('' @ esc ''d+'' @ esc ''.'' @ esc ''d{2})''
                                 @ esc ''s+(?:after|instant)''),
          product_pattern := Some (''^([A-Z][A-Z'' @ esc ''s]{5,40})$'')\<rparr>),
      (''whole_foods'', (new_template ''whole_foods'')
         \<lparr>layout_type := ''mixed'', columns := 3, has_header := True, has_member_prices := True,
          regions := [new_region ''header'' 0 1 0 (15 / 100) ''header'',
                      new_region ''prime_deals'' 0 (1 / 2) (15 / 100) (1 / 2) ''deals'',
                      new_region ''regular_deals'' (1 / 2) 1 (15 / 100) (85 / 100) ''deals'',
                      new_region ''footer'' 0 1 (85 / 100) 1 ''footer''],
          price_pattern := Some (''(?:sale|prime)'' @ esc ''s*'' @ esc ''$('' @ esc ''d+''
                                 @ esc ''.'' @ esc ''d{2})'')\<rparr>),
      (''safeway'', (new_template ''safeway'')
         \<lparr>layout_type := ''grid'', columns := 3, has_header := True, has_member_prices := True,
          regions := [new_region ''header'' 0 1 0 (12 / 100) ''header'',
                      new_region ''main_grid'' 0 1 (12 / 100) (88 / 100) ''deals'',
                      new_region ''footer'' 0 1 (88 / 100) 1 ''footer''],
          price_pattern := Some (''club'' @ esc ''s+price'' @ esc ''s+'' @ esc ''$('' @ esc ''d+''
                                 @ esc ''.'' @ esc ''d{2})'')\<rparr>),
      (''walmart'', (new_template ''walmart'')
         \<lparr>layout_type := ''list'', columns := 1, has_header := True, has_member_prices := False,
          regions := [new_region ''header'' 0 1 0 (1 / 10) ''header'',
                      new_region ''deals'' 0 1 (1 / 10) (9 / 10) ''deals'',
                      new_region ''footer'' 0 1 (9 / 10) 1 ''footer''],
          price_pattern := Some (''(?:rollback|was'' @ esc ''s+'' @ esc ''$'' @ esc ''d+''
                                 @ esc ''.'' @ esc ''d{2}'' @ esc ''s+now)'' @ esc ''s*''
                                 @ esc ''$('' @ esc ''d+'' @ esc ''.'' @ esc ''d{2})'')\<rparr>),
      (''kroger'', (new_template ''kroger'')
         \<lparr>layout_type := ''grid'', columns := 4, has_header := True, has_member_prices := True,
          regions := [new_region ''header'' 0 1 0 (1 / 10) ''header'',
                      new_region ''digital_coupons'' 0 (3 / 10) (1 / 10) (1 / 2) ''deals'',
                      new_region ''main_deals'' (3 / 10) 1 (1 / 10) (9 / 10) ''deals'',
                      new_region ''footer'' 0 1 (9 / 10) 1 ''footer'']\<rparr>)]"

text \<open>
  \<^verbatim>\<open>re.compile\<close> on a pattern string taken from a template is a parameter of the model: a
  function from pattern strings to syntax trees, \<open>None\<close> when \<^verbatim>\<open>re.error\<close> is raised.
  \<open>default_compile\<close> is its value on the pattern strings of the default templates.
\<close>

type_synonym re_compiler = "string \<Rightarrow> rx option"

text \<open>\<open>rx_price2\<close> is \<^verbatim>\<open>\$(\d+\.\d{2})\<close>, the generic price of \<^verbatim>\<open>_extract_from_block\<close> and the tail
  of the default price patterns.\<close>

definition rx_price2 :: rx where
  "rx_price2 = Seq (In ''$'') (Grp 1 (seqs [rx_plus rx_digit, In ''.'', Rep 2 (Some 2) rx_digit]))"

definition default_compile :: re_compiler where
  "default_compile s =
     (if Some s = price_pattern (the (map_of DEFAULT_TEMPLATES ''costco''))
      then Some (seqs [rx_price2, rx_plus rx_space, alts [lit ''after'', lit ''instant'']])
      else if Some s = product_pattern (the (map_of DEFAULT_TEMPLATES ''costco''))
      then Some (seqs [Bol, Grp 1 (Seq (In ascii_upper) (Rep 5 (Some 40) (In (ascii_upper @ py_whitespace)))), Eol])
      else if Some s = price_pattern (the (map_of DEFAULT_TEMPLATES ''whole_foods''))
      then Some (seqs [alts [lit ''sale'', lit ''prime''], rx_star rx_space, rx_price2])
      else if Some s = price_pattern (the (map_of DEFAULT_TEMPLATES ''safeway''))
      then Some (seqs [lit ''club'', rx_plus rx_space, lit ''price'', rx_plus rx_space, rx_price2])
      else if Some s = price_pattern (the (map_of DEFAULT_TEMPLATES ''walmart''))
      then Some (seqs [alts [lit ''rollback'',
                             seqs [lit ''was'', rx_plus rx_space, In ''$'', rx_plus rx_digit, In ''.'',
                                   Rep 2 (Some 2) rx_digit, rx_plus rx_space, lit ''now'']],
                       rx_star rx_space, rx_price2])
      else None)"

text \<open>The number of capture groups of a pattern, for \<^verbatim>\<open>match.groups()\<close>.\<close>

primrec rx_ngroups :: "rx \<Rightarrow> nat" where
  "rx_ngroups (In cs) = 0"
| "rx_ngroups (NotIn cs) = 0"
| "rx_ngroups Eps = 0"
| "rx_ngroups (Seq a b) = max (rx_ngroups a) (rx_ngroups b)"
| "rx_ngroups (Alt a b) = max (rx_ngroups a) (rx_ngroups b)"
| "rx_ngroups (Rep lo hi a) = rx_ngroups a"
| "rx_ngroups (Grp n a) = max n (rx_ngroups a)"
| "rx_ngroups WordB = 0"
| "rx_ngroups Bol = 0"
| "rx_ngroups Eol = 0"

definition groups :: "rx \<Rightarrow> string \<Rightarrow> rx_match \<Rightarrow> string option list" where
  "groups r t m = map (group t m) [1..<rx_ngroups r + 1]"

subsection \<open>Splitting the text into blocks\<close>

text \<open>\<^verbatim>\<open>s.split(sep)\<close> for a non-empty separator; \<open>k\<close> counts the characters of a separator
  that are still to be skipped. An empty separator raises \<open>ValueError\<close>.\<close>

fun split_go :: "string \<Rightarrow> nat \<Rightarrow> string \<Rightarrow> string \<Rightarrow> string list" where
  "split_go sep k [] w = [rev w]"
| "split_go sep k (c # cs) w =
     (if k > 0 then split_go sep (k - 1) cs w
      else if starts_with sep (c # cs) then rev w # split_go sep (length sep - 1) cs []
      else split_go sep 0 cs (c # w))"

definition py_split_sep :: "string \<Rightarrow> string \<Rightarrow> py_error + string list" where
  "py_split_sep sep s = (if sep = [] then Inl ValueError else Inr (split_go sep 0 s []))"

definition split_lines :: "string \<Rightarrow> string list" where
  "split_lines s = split_go [CHR 0x0A] 0 s []"

text \<open>\<^verbatim>\<open>_split_grid\<close>: blocks of consecutive non-blank lines.\<close>

definition split_grid_step :: "string \<Rightarrow> string list \<times> string list \<Rightarrow> string list \<times> string list" where
  "split_grid_step line st =
     (case st of (blocks, current_block) \<Rightarrow>
        if py_strip line = []
        then (if current_block \<noteq> [] then (blocks @ [py_join [CHR 0x0A] current_block], [])
              else (blocks, current_block))
        else (blocks, current_block @ [line]))"

definition split_grid :: "string \<Rightarrow> int \<Rightarrow> string list" where
  "split_grid text cols =
     (case fold split_grid_step (split_lines text) ([], []) of
        (blocks, current_block) \<Rightarrow>
          if current_block \<noteq> [] then blocks @ [py_join [CHR 0x0A] current_block] else blocks)"

text \<open>\<^verbatim>\<open>re.split\<close> for a pattern without groups: the text between the matches.\<close>

fun split_pieces :: "string \<Rightarrow> nat \<Rightarrow> rx_match list \<Rightarrow> string list" where
  "split_pieces t pos [] = [drop pos t]"
| "split_pieces t pos (m # ms) = slice t pos (m_start m) # split_pieces t (m_end m) ms"

definition re_split :: "rx \<Rightarrow> rx_flags \<Rightarrow> string \<Rightarrow> string list" where
  "re_split r fl t = split_pieces t 0 (re_finditer r fl t)"

definition split_mixed :: "string \<Rightarrow> string list" where
  "split_mixed text =
     map py_strip (filter (\<lambda>b. py_strip b \<noteq> []) (re_split (Rep 2 None (In [CHR 0x0A])) flags_none text))"

subsection \<open>Extraction from one block\<close>

text \<open>The title-case fallback: the first of the first three lines that matches
  \<^verbatim>\<open>^[A-Z][A-Za-z\s\']{2,30}$\<close>.\<close>

definition first_title_line :: "string list \<Rightarrow> string option" where
  "first_title_line lines =
     (case List.find (\<lambda>line.
             rx_match_at (seqs [Bol, In ascii_upper,
                                Rep 2 (Some 30) (In (ascii_upper @ ascii_lower @ py_whitespace @ [CHR 0x27])),
                                Eol]) flags_none (py_strip line) 0 \<noteq> None) (take 3 lines) of
        None \<Rightarrow> None
      | Some line \<Rightarrow> Some (py_strip line))"

definition extract_from_block ::
  "re_compiler \<Rightarrow> string \<Rightarrow> StoreTemplate \<Rightarrow> nat \<Rightarrow> py_error + ExtractedDeal list" where
  "extract_from_block compile block template block_index =
     (if py_strip block = [] then Inr []
      else
        case (if truthy_str (product_pattern template)
              then (case compile (the (product_pattern template)) of
                      None \<Rightarrow> Inl ReError
                    | Some r \<Rightarrow>
                       (case re_search r flags_m block of
                          None \<Rightarrow> Inr None
                        | Some m \<Rightarrow> (case group block m 1 of
                                       None \<Rightarrow> Inl AttributeError
                                     | Some g \<Rightarrow> Inr (Some (py_strip g)))))
              else Inr None) of
          Inl e \<Rightarrow> Inl e
        | Inr product_name1 \<Rightarrow>
        case (if truthy_str (price_pattern template)
              then (case compile (the (price_pattern template)) of
                      None \<Rightarrow> Inl ReError
                    | Some r \<Rightarrow>
                       (case re_search r flags_i block of
                          None \<Rightarrow> Inr None
                        | Some m \<Rightarrow> (case py_float (group block m 1) of
                                       Inl e \<Rightarrow> Inl e
                                     | Inr p \<Rightarrow> Inr (Some p))))
              else Inr None) of
          Inl e \<Rightarrow> Inl e
        | Inr price1 \<Rightarrow>
        case (if price1 = None
              then (case re_search rx_price2 flags_none block of
                      None \<Rightarrow> Inr None
                    | Some m \<Rightarrow> (case py_float (group block m 1) of
                                   Inl e \<Rightarrow> Inl e
                                 | Inr p \<Rightarrow> Inr (Some p)))
              else Inr price1) of
          Inl e \<Rightarrow> Inl e
        | Inr price2 \<Rightarrow>
          let product_name2 =
                (if product_name1 = None then first_title_line (split_lines (py_strip block))
                 else product_name1)
          in if price2 \<noteq> None
             then Inr [(new_deal (take 100 block) PRICE)
                        \<lparr>product_name := product_name2, price := price2,
                         metadata := [(''source'', PStr ''template''),
                                      (''store'', PStr (store_name template)),
                                      (''block_index'', PInt (int block_index))]\<rparr>]
             else Inr [])"

definition extract_with_template ::
  "re_compiler \<Rightarrow> string \<Rightarrow> StoreTemplate \<Rightarrow> py_error + ExtractedDeal list" where
  "extract_with_template compile text template =
     (case (if layout_type template = ''grid'' then Inr (split_grid text (columns template))
            else if layout_type template = ''list'' then py_split_sep (deal_separator template) text
            else Inr (split_mixed text)) of
        Inl e \<Rightarrow> Inl e
      | Inr blocks \<Rightarrow>
          (case collect (map (\<lambda>(i, block). extract_from_block compile block template i)
                             (zip [0..<length blocks] blocks)) of
             Inl e \<Rightarrow> Inl e
           | Inr dss \<Rightarrow> Inr (concat dss)))"

subsection \<open>Extraction with OCR coordinates\<close>

record ocr_block =
  ob_text :: string
  ob_x :: real
  ob_y :: real

text \<open>The dictionary \<^verbatim>\<open>region_texts\<close>, keyed by region name in order of first insertion.\<close>

fun dict_set :: "('k \<times> 'v) list \<Rightarrow> 'k \<Rightarrow> 'v \<Rightarrow> ('k \<times> 'v) list" where
  "dict_set [] k v = [(k, v)]"
| "dict_set ((k', v') # kvs) k v = (if k' = k then (k, v) # kvs else (k', v') # dict_set kvs k v)"

definition bucket_step ::
  "StoreTemplate \<Rightarrow> ocr_block \<Rightarrow> (string \<times> ocr_block list) list \<Rightarrow> (string \<times> ocr_block list) list" where
  "bucket_step template coord region_texts =
     (case List.find (\<lambda>region. x_start region \<le> ob_x coord \<and> ob_x coord \<le> x_end region \<and>
                                y_start region \<le> ob_y coord \<and> ob_y coord \<le> y_end region)
             (regions template) of
        None \<Rightarrow> region_texts
      | Some region \<Rightarrow>
          if contains region = ''deals''
          then dict_set region_texts (region_name region)
                 (the (map_of region_texts (region_name region)) @ [coord])
          else region_texts)"

text \<open>The row-grouping loop: the state is the finished rows, the fragments of the current
  row and the last \<open>y\<close>.\<close>

definition row_step ::
  "ocr_block \<Rightarrow> string list \<times> string list \<times> real \<Rightarrow> string list \<times> string list \<times> real" where
  "row_step block st =
     (case st of (rows, current_deal_text, last_y) \<Rightarrow>
        if last_y \<ge> 0 \<and> \<bar>ob_y block - last_y\<bar> > 5 / 100
        then ((if current_deal_text \<noteq> [] then rows @ [py_join '' '' current_deal_text] else rows),
              [ob_text block], ob_y block)
        else (rows, current_deal_text @ [ob_text block], ob_y block))"

definition region_rows :: "ocr_block list \<Rightarrow> string list" where
  "region_rows blocks =
     (case fold row_step (sort_key (\<lambda>b. (ob_y b, ob_x b)) blocks) ([], [], - 1) of
        (rows, current_deal_text, last_y) \<Rightarrow>
          if current_deal_text \<noteq> [] then rows @ [py_join '' '' current_deal_text] else rows)"

definition extract_with_coordinates ::
  "re_compiler \<Rightarrow> string \<Rightarrow> StoreTemplate \<Rightarrow> ocr_block list \<Rightarrow> py_error + ExtractedDeal list" where
  "extract_with_coordinates compile text template coordinates =
     (let region_texts0 = fold (\<lambda>r d. dict_set d (region_name r) []) (regions template) [];
          region_texts = fold (bucket_step template) coordinates region_texts0
      in case collect (map (\<lambda>combined. extract_from_block compile combined template 0)
                           (concat (map (\<lambda>(region_name, blocks).
                                           if blocks = [] then [] else region_rows blocks)
                                        region_texts))) of
           Inl e \<Rightarrow> Inl e
         | Inr dss \<Rightarrow> Inr (concat dss))"

subsection \<open>Custom patterns\<close>

definition deal_type_values :: "(string \<times> DealType) list" where
  "deal_type_values =
     map (\<lambda>d. (deal_type_value d, d))
       [PRICE, UNIT_PRICE, MULTI_BUY, BOGO, SAVE_AMOUNT, PERCENT_OFF, MEMBER_PRICE, UNKNOWN]"

text \<open>The loop over \<^verbatim>\<open>match.groups()\<close>: the first group that reads as a number between 0.01
  and 1000 is the price; a group that does not read as a number is skipped.\<close>

fun first_price :: "string option list \<Rightarrow> real option" where
  "first_price [] = None"
| "first_price (g # gs) =
     (case py_float g of
        Inl e \<Rightarrow> first_price gs
      | Inr p \<Rightarrow> if 1 / 100 \<le> p \<and> p \<le> 1000 then Some p else first_price gs)"

definition apply_custom_patterns ::
  "re_compiler \<Rightarrow> string \<Rightarrow> StoreTemplate \<Rightarrow> ExtractedDeal list" where
  "apply_custom_patterns compile text template =
     concat (map (\<lambda>pattern_info.
        let pattern = map_of pattern_info ''pattern'';
            dt = (case map_of pattern_info ''deal_type'' of None \<Rightarrow> ''price'' | Some d \<Rightarrow> d)
        in if \<not> truthy_str pattern then []
           else case compile (the pattern) of
                  None \<Rightarrow> []
                | Some regex \<Rightarrow>
                    concat (map (\<lambda>m.
                      let deal = (new_deal (group0 text m)
                                    (case map_of deal_type_values dt of None \<Rightarrow> PRICE | Some d \<Rightarrow> d))
                                 \<lparr>metadata := [(''source'', PStr ''custom_pattern''),
                                               (''pattern_id'',
                                                (case map_of pattern_info ''id'' of
                                                   None \<Rightarrow> PNone | Some i \<Rightarrow> PStr i))]\<rparr>;
                          deal = deal\<lparr>price := first_price (groups regex text m)\<rparr>
                      in if truthy_real (price deal) then [deal] else [])
                    (re_finditer regex flags_i text)))
       (custom_patterns template))"

subsection \<open>Merging with the regex pass, and confidence\<close>

definition similar_products :: "string option \<Rightarrow> string option \<Rightarrow> bool" where
  "similar_products name1 name2 =
     (if \<not> truthy_str name1 \<or> \<not> truthy_str name2 then False
      else let n1 = py_strip (py_lower (the name1));
               n2 = py_strip (py_lower (the name2))
           in if n1 = n2 then True
              else if py_in n1 n2 \<or> py_in n2 n1 then True
              else let words1 = remdups (py_split n1);
                       words2 = remdups (py_split n2);
                       overlap = length (filter (\<lambda>w. w \<in> set words2) words1)
                   in real overlap \<ge> real (min (length words1) (length words2)) * (1 / 2))"

definition merge_deals :: "ExtractedDeal list \<Rightarrow> ExtractedDeal list \<Rightarrow> ExtractedDeal list" where
  "merge_deals template_deals regex_deals =
     fold (\<lambda>regex_deal merged.
             if list_ex (\<lambda>template_deal. price template_deal = price regex_deal \<and>
                           similar_products (product_name template_deal) (product_name regex_deal))
                        template_deals
             then merged else merged @ [regex_deal])
          regex_deals template_deals"

definition template_confidence :: "StoreTemplate option \<Rightarrow> ExtractedDeal \<Rightarrow> real" where
  "template_confidence template deal =
     (let base_confidence = 4 / 10;
          base_confidence =
            (if map_of (metadata deal) ''source'' = Some (PStr ''template'')
             then base_confidence + 15 / 100
             else if map_of (metadata deal) ''source'' = Some (PStr ''custom_pattern'')
             then base_confidence + 2 / 10 else base_confidence);
          base_confidence = (if truthy_str (product_name deal)
                             then base_confidence + 15 / 100 else base_confidence);
          base_confidence = (if truthy_real (price deal) \<and> 1 / 100 \<le> the (price deal) \<and>
                                the (price deal) \<le> 500
                             then base_confidence + 1 / 10 else base_confidence);
          base_confidence = (case template of
                               None \<Rightarrow> base_confidence
                             | Some t \<Rightarrow> if accuracy t > 0
                                         then base_confidence + accuracy t * (1 / 10)
                                         else base_confidence)
      in min base_confidence 1)"

definition template_calculate_confidence ::
  "ExtractedDeal list \<Rightarrow> StoreTemplate option \<Rightarrow> ExtractedDeal list" where
  "template_calculate_confidence deals template =
     map (\<lambda>deal. deal\<lparr>confidence := template_confidence template deal\<rparr>) deals"

subsection \<open>\<^verbatim>\<open>TemplateDealParser.parse\<close>\<close>

text \<open>The parser object: the template registry, a dictionary in insertion order, and the
  path of the templates file.\<close>

record TemplateDealParser =
  templates :: "(string \<times> StoreTemplate) list"
  templates_path :: "string option"

definition get_template :: "TemplateDealParser \<Rightarrow> string option \<Rightarrow> StoreTemplate option" where
  "get_template tp store =
     (if \<not> truthy_str store then None
      else let store_lower = py_lower (the store)
           in case map_of (templates tp) store_lower of
                Some t \<Rightarrow> Some t
              | None \<Rightarrow>
                 (case List.find (\<lambda>(key, t). py_in key store_lower \<or> py_in store_lower key)
                         (templates tp) of
                    None \<Rightarrow> None
                  | Some (key, t) \<Rightarrow> Some t))"

definition template_parse ::
  "re_compiler \<Rightarrow> TemplateDealParser \<Rightarrow> string \<Rightarrow> string option \<Rightarrow> ocr_block list option
     \<Rightarrow> py_error + ExtractedDeal list" where
  "template_parse compile tp text store coordinates =
     (let template = get_template tp store
      in case (case template of
                 None \<Rightarrow> Inr []
               | Some t \<Rightarrow>
                  (case (if coordinates \<noteq> None \<and> coordinates \<noteq> Some []
                         then extract_with_coordinates compile text t (the coordinates)
                         else extract_with_template compile text t) of
                     Inl e \<Rightarrow> Inl e
                   | Inr deals \<Rightarrow> Inr (deals @ apply_custom_patterns compile text t))) of
           Inl e \<Rightarrow> Inl e
         | Inr deals \<Rightarrow>
            (case regex_parse None text of
               Inl e \<Rightarrow> Inl e
             | Inr regex_deals \<Rightarrow>
                 Inr (template_calculate_confidence (merge_deals deals regex_deals) template)))"

subsection \<open>Template persistence\<close>

text \<open>
  \<^verbatim>\<open>json.dump\<close> and \<^verbatim>\<open>json.load\<close> are inverse to each other on JSON values, so a file is
  modelled by the JSON value it holds. Objects keep the order of their keys.
\<close>

datatype json =
  JNull | JBool bool | JInt int | JNum real | JStr string | JArr "json list"
  | JObj "(string \<times> json) list"

type_synonym files = "string \<Rightarrow> json option"

definition json_opt_str :: "string option \<Rightarrow> json" where
  "json_opt_str s = (case s of None \<Rightarrow> JNull | Some x \<Rightarrow> JStr x)"

definition region_to_json :: "LayoutRegion \<Rightarrow> json" where
  "region_to_json r =
     JObj [(''name'', JStr (region_name r)), (''x_start'', JNum (x_start r)),
           (''x_end'', JNum (x_end r)), (''y_start'', JNum (y_start r)),
           (''y_end'', JNum (y_end r)), (''contains'', JStr (contains r))]"

definition template_to_json :: "StoreTemplate \<Rightarrow> json" where
  "template_to_json t =
     JObj [(''store_name'', JStr (store_name t)),
           (''layout_type'', JStr (layout_type t)),
           (''columns'', JInt (columns t)),
           (''has_header'', JBool (has_header t)),
           (''has_member_prices'', JBool (has_member_prices t)),
           (''price_pattern'', json_opt_str (price_pattern t)),
           (''product_pattern'', json_opt_str (product_pattern t)),
           (''deal_separator'', JStr (deal_separator t)),
           (''sample_count'', JInt (sample_count t)),
           (''accuracy'', JNum (accuracy t)),
           (''last_updated'', json_opt_str (last_updated t)),
           (''custom_patterns'',
              JArr (map (\<lambda>d. JObj (map (\<lambda>(k, v). (k, JStr v)) d)) (custom_patterns t))),
           (''regions'', JArr (map region_to_json (regions t)))]"

text \<open>\<^verbatim>\<open>save_templates\<close>: nothing is written when the parser has no path.\<close>

definition save_templates :: "TemplateDealParser \<Rightarrow> files \<Rightarrow> files" where
  "save_templates tp fs =
     (case templates_path tp of
        None \<Rightarrow> fs
      | Some p \<Rightarrow> fs(p \<mapsto> JObj (map (\<lambda>(store, t). (store, template_to_json t)) (templates tp))))"

text \<open>Reading a template back: \<^verbatim>\<open>StoreTemplate(**template_data, regions=regions)\<close> raises on an
  unknown key and on a missing \<^verbatim>\<open>store_name\<close>; absent keys take the dataclass defaults.
  The model is typed, so a value of the wrong JSON type is rejected as well.\<close>

definition is_str :: "json \<Rightarrow> bool" where
  "is_str j = (case j of JStr s \<Rightarrow> True | _ \<Rightarrow> False)"

definition is_opt_str :: "json \<Rightarrow> bool" where
  "is_opt_str j = (case j of JStr s \<Rightarrow> True | JNull \<Rightarrow> True | _ \<Rightarrow> False)"

definition is_num :: "json \<Rightarrow> bool" where
  "is_num j = (case j of JNum x \<Rightarrow> True | JInt i \<Rightarrow> True | _ \<Rightarrow> False)"

definition is_int :: "json \<Rightarrow> bool" where
  "is_int j = (case j of JInt i \<Rightarrow> True | _ \<Rightarrow> False)"

definition is_bool :: "json \<Rightarrow> bool" where
  "is_bool j = (case j of JBool b \<Rightarrow> True | _ \<Rightarrow> False)"

definition get_str :: "(string \<times> json) list \<Rightarrow> string \<Rightarrow> string \<Rightarrow> string" where
  "get_str kvs k d = (case map_of kvs k of Some (JStr s) \<Rightarrow> s | _ \<Rightarrow> d)"

definition get_opt_str :: "(string \<times> json) list \<Rightarrow> string \<Rightarrow> string option" where
  "get_opt_str kvs k = (case map_of kvs k of Some (JStr s) \<Rightarrow> Some s | _ \<Rightarrow> None)"

definition get_num :: "(string \<times> json) list \<Rightarrow> string \<Rightarrow> real \<Rightarrow> real" where
  "get_num kvs k d =
     (case map_of kvs k of Some (JNum x) \<Rightarrow> x | Some (JInt i) \<Rightarrow> real_of_int i | _ \<Rightarrow> d)"

definition get_int :: "(string \<times> json) list \<Rightarrow> string \<Rightarrow> int \<Rightarrow> int" where
  "get_int kvs k d = (case map_of kvs k of Some (JInt i) \<Rightarrow> i | _ \<Rightarrow> d)"

definition get_bool :: "(string \<times> json) list \<Rightarrow> string \<Rightarrow> bool \<Rightarrow> bool" where
  "get_bool kvs k d = (case map_of kvs k of Some (JBool b) \<Rightarrow> b | _ \<Rightarrow> d)"

definition well_typed :: "(string \<times> json) list \<Rightarrow> (string \<times> (json \<Rightarrow> bool)) list \<Rightarrow> bool" where
  "well_typed kvs schema =
     list_all (\<lambda>(k, v). case map_of schema k of None \<Rightarrow> False | Some ok \<Rightarrow> ok v) kvs"

definition region_schema :: "(string \<times> (json \<Rightarrow> bool)) list" where
  "region_schema =
     [(''name'', is_str), (''x_start'', is_num), (''x_end'', is_num), (''y_start'', is_num),
      (''y_end'', is_num), (''contains'', is_str)]"

definition region_of_json :: "json \<Rightarrow> LayoutRegion option" where
  "region_of_json j =
     (case j of
        JObj kvs \<Rightarrow>
          if well_typed kvs region_schema \<and> map_of kvs ''name'' \<noteq> None
          then Some \<lparr>region_name = get_str kvs ''name'' [], x_start = get_num kvs ''x_start'' 0,
                     x_end = get_num kvs ''x_end'' 1, y_start = get_num kvs ''y_start'' 0,
                     y_end = get_num kvs ''y_end'' 1, contains = get_str kvs ''contains'' ''deals''\<rparr>
          else None
      | _ \<Rightarrow> None)"

fun those_all :: "'a option list \<Rightarrow> 'a list option" where
  "those_all [] = Some []"
| "those_all (None # xs) = None"
| "those_all (Some x # xs) = (case those_all xs of None \<Rightarrow> None | Some ys \<Rightarrow> Some (x # ys))"

definition str_dict_of_json :: "json \<Rightarrow> str_dict option" where
  "str_dict_of_json j =
     (case j of
        JObj kvs \<Rightarrow> those_all (map (\<lambda>(k, v). case v of JStr s \<Rightarrow> Some (k, s) | _ \<Rightarrow> None) kvs)
      | _ \<Rightarrow> None)"

definition json_list :: "(json \<Rightarrow> 'a option) \<Rightarrow> json option \<Rightarrow> 'a list option" where
  "json_list f j =
     (case j of None \<Rightarrow> Some [] | Some (JArr xs) \<Rightarrow> those_all (map f xs) | _ \<Rightarrow> None)"

definition template_schema :: "(string \<times> (json \<Rightarrow> bool)) list" where
  "template_schema =
     [(''store_name'', is_str), (''layout_type'', is_str), (''columns'', is_int),
      (''has_header'', is_bool), (''has_member_prices'', is_bool),
      (''price_pattern'', is_opt_str), (''product_pattern'', is_opt_str),
      (''deal_separator'', is_str), (''sample_count'', is_int), (''accuracy'', is_num),
      (''last_updated'', is_opt_str), (''custom_patterns'', \<lambda>j. True), (''regions'', \<lambda>j. True)]"

definition template_of_json :: "json \<Rightarrow> StoreTemplate option" where
  "template_of_json j =
     (case j of
        JObj kvs \<Rightarrow>
          (case json_list region_of_json (map_of kvs ''regions'') of
             None \<Rightarrow> None
           | Some rs \<Rightarrow>
              (case json_list str_dict_of_json (map_of kvs ''custom_patterns'') of
                 None \<Rightarrow> None
               | Some cps \<Rightarrow>
                   if well_typed kvs template_schema \<and> map_of kvs ''store_name'' \<noteq> None
                   then Some \<lparr>store_name = get_str kvs ''store_name'' [],
                              layout_type = get_str kvs ''layout_type'' ''grid'',
                              regions = rs,
                              price_pattern = get_opt_str kvs ''price_pattern'',
                              product_pattern = get_opt_str kvs ''product_pattern'',
                              deal_separator = get_str kvs ''deal_separator'' [CHR 0x0A],
                              columns = get_int kvs ''columns'' 1,
                              has_header = get_bool kvs ''has_header'' True,
                              has_member_prices = get_bool kvs ''has_member_prices'' False,
                              sample_count = get_int kvs ''sample_count'' 0,
                              accuracy = get_num kvs ''accuracy'' 0,
                              last_updated = get_opt_str kvs ''last_updated'',
                              custom_patterns = cps\<rparr>
                   else None))
      | _ \<Rightarrow> None)"

text \<open>\<^verbatim>\<open>_load_templates\<close>: the entries are stored one by one; the first exception ends the
  loop (it is caught and reported), keeping what was stored before it.\<close>

fun load_entries ::
  "(string \<times> StoreTemplate) list \<Rightarrow> (string \<times> json) list \<Rightarrow> (string \<times> StoreTemplate) list" where
  "load_entries tpl [] = tpl"
| "load_entries tpl ((store, j) # rest) =
     (case template_of_json j of
        None \<Rightarrow> tpl
      | Some t \<Rightarrow> load_entries (dict_set tpl store t) rest)"

definition load_templates :: "(string \<times> StoreTemplate) list \<Rightarrow> json \<Rightarrow> (string \<times> StoreTemplate) list" where
  "load_templates tpl data = (case data of JObj kvs \<Rightarrow> load_entries tpl kvs | _ \<Rightarrow> tpl)"

text \<open>The constructor: the default templates, then the file if the path is given and the
  file exists. In the source the default templates are objects shared by all parsers of a
  process, so a correction for a default store changes them for parsers constructed
  later; the model starts from the defaults as a new process has them. A file written by
  \<^verbatim>\<open>save_templates\<close> holds every store of the registry and overrides them all.\<close>

definition TemplateDealParser_init :: "string option \<Rightarrow> files \<Rightarrow> TemplateDealParser" where
  "TemplateDealParser_init path fs =
     \<lparr>templates = (case path of
                     None \<Rightarrow> DEFAULT_TEMPLATES
                   | Some p \<Rightarrow> (case fs p of
                                  None \<Rightarrow> DEFAULT_TEMPLATES
                                | Some data \<Rightarrow> load_templates DEFAULT_TEMPLATES data)),
      templates_path = path\<rparr>"

subsection \<open>Learning from a correction\<close>

text \<open>Decimal output of a natural number, and \<^verbatim>\<open>f"{price:.2f}"\<close>: the price rounded to the
  nearest cent (ties to even), at least one digit before the point and two after it.\<close>

definition digit_char :: "nat \<Rightarrow> char" where
  "digit_char n = ascii_digits ! (n mod 10)"

fun str_nat_fuel :: "nat \<Rightarrow> nat \<Rightarrow> string" where
  "str_nat_fuel 0 n = [digit_char n]"
| "str_nat_fuel (Suc f) n =
     (if n < 10 then [digit_char n] else str_nat_fuel f (n div 10) @ [digit_char n])"

definition str_nat :: "nat \<Rightarrow> string" where
  "str_nat n = str_nat_fuel n n"

definition round_half_even :: "real \<Rightarrow> int" where
  "round_half_even x =
     (let f = \<lfloor>x\<rfloor>; d = x - real_of_int f
      in if d < 1 / 2 then f else if d > 1 / 2 then f + 1 else if even f then f else f + 1)"

definition format_2f :: "real \<Rightarrow> string" where
  "format_2f p =
     (let cents = nat (round_half_even (\<bar>p\<bar> * 100))
      in (if p < 0 then ''-'' else []) @ str_nat (cents div 100) @ ''.'' @
         [digit_char ((cents div 10) mod 10), digit_char (cents mod 10)])"

text \<open>\<^verbatim>\<open>re.escape\<close> puts a backslash before every character that can be special in a
  pattern; in a formatted price these are the point and the minus sign.\<close>

definition re_escape :: "string \<Rightarrow> string" where
  "re_escape s = concat (map (\<lambda>c. if c \<in> set (ascii_digits @ ascii_lower @ ascii_upper @ ''_'')
                                   then [c] else esc [c]) s)"

text \<open>The three candidate patterns, each with the pattern string that is stored and the
  syntax tree that \<^verbatim>\<open>re.search\<close> runs. With \<open>P\<close> for the escaped price they are
  \<^verbatim>\<open>\$(P)\<close>, \<^verbatim>\<open>(P)\s*(?:dollars?|usd)\<close> and \<^verbatim>\<open>price[:\s]+\$?(P)\<close>. An escaped text matches
  itself literally.\<close>

definition patterns_to_try :: "string \<Rightarrow> (string \<times> rx) list" where
  "patterns_to_try price_str =
     (let escaped_price = re_escape price_str
      in [(esc ''$('' @ escaped_price @ '')'',
           Seq (In ''$'') (Grp 1 (lit price_str))),
          (''('' @ escaped_price @ '')'' @ esc ''s*(?:dollars?|usd)'',
           seqs [Grp 1 (lit price_str), rx_star rx_space,
                 alts [Seq (lit ''dollar'') (rx_opt (lit ''s'')), lit ''usd'']]),
          (''price[:'' @ esc ''s]+'' @ esc ''$?('' @ escaped_price @ '')'',
           seqs [lit ''price'', rx_colon_space, rx_opt (In ''$''), Grp 1 (lit price_str)])])"

text \<open>\<^verbatim>\<open>TemplateDealParser.learn_from_correction\<close>. The current time, as the ISO string
  that \<^verbatim>\<open>datetime.now().isoformat()\<close> returns, is an argument.\<close>

definition template_learn_from_correction ::
  "string \<Rightarrow> TemplateDealParser \<Rightarrow> files \<Rightarrow> string \<Rightarrow> ExtractedDeal \<Rightarrow> ExtractedDeal \<Rightarrow> string
     \<Rightarrow> TemplateDealParser \<times> files" where
  "template_learn_from_correction now tp fs store original_deal corrected_deal raw =
     (let store_lower = py_lower store;
          tpl = (if map_of (templates tp) store_lower = None
                 then dict_set (templates tp) store_lower (new_template store_lower)
                 else templates tp);
          template = the (map_of tpl store_lower);
          template = template\<lparr>sample_count := sample_count template + 1\<rparr>;
          template =
            (if truthy_real (price corrected_deal) \<and> price original_deal \<noteq> price corrected_deal
             then (let price_str = format_2f (the (price corrected_deal))
                   in case List.find (\<lambda>(pattern, r). re_search r flags_i raw \<noteq> None)
                             (patterns_to_try price_str) of
                        None \<Rightarrow> template
                      | Some (pattern, r) \<Rightarrow>
                          template\<lparr>custom_patterns := custom_patterns template @
                            [[(''id'', ''price_'' @ (if sample_count template < 0 then ''-'' else [])
                                        @ str_nat (nat \<bar>sample_count template\<bar>)),
                              (''pattern'', pattern),
                              (''deal_type'', ''price''),
                              (''learned_from'', take 50 (raw_text corrected_deal))]]\<rparr>)
             else template);
          template = template\<lparr>last_updated := Some now\<rparr>;
          tp' = tp\<lparr>templates := dict_set tpl store_lower template\<rparr>
      in (tp', save_templates tp' fs))"

section \<open>DealMatcher: string similarity features\<close>

text \<open>
  \<^verbatim>\<open>DealMatcher._levenshtein_similarity\<close> fills a \<open>(len1 + 1) \<times> (len2 + 1)\<close> matrix in place.
  The matrix is a list of rows; the two initialisation loops and the nested main loop are
  folds over the index ranges of the source.
\<close>

definition lev_init :: "nat \<Rightarrow> nat \<Rightarrow> nat list list" where
  "lev_init len1 len2 =
     (let matrix = replicate (len1 + 1) (replicate (len2 + 1) 0);
          matrix = fold (\<lambda>i m. m[i := (m ! i)[0 := i]]) [0..<len1 + 1] matrix;
          matrix = fold (\<lambda>j m. m[0 := (m ! 0)[j := j]]) [0..<len2 + 1] matrix
      in matrix)"

definition lev_cell :: "'a list \<Rightarrow> 'a list \<Rightarrow> nat \<Rightarrow> nat \<Rightarrow> nat list list \<Rightarrow> nat list list" where
  "lev_cell s1 s2 i j m =
     (let cost = (if s1 ! (i - 1) = s2 ! (j - 1) then 0 else 1)
      in m[i := (m ! i)[j := min (min (m ! (i - 1) ! j + 1) (m ! i ! (j - 1) + 1))
                                  (m ! (i - 1) ! (j - 1) + cost)]])"

definition lev_matrix :: "'a list \<Rightarrow> 'a list \<Rightarrow> nat list list" where
  "lev_matrix s1 s2 =
     fold (\<lambda>i m. fold (\<lambda>j m. lev_cell s1 s2 i j m) [1..<length s2 + 1] m)
          [1..<length s1 + 1] (lev_init (length s1) (length s2))"

definition levenshtein_similarity :: "'a list \<Rightarrow> 'a list \<Rightarrow> real" where
  "levenshtein_similarity s1 s2 =
     (if s1 = [] \<or> s2 = [] then 0
      else let len1 = length s1; len2 = length s2;
               distance = lev_matrix s1 s2 ! len1 ! len2;
               max_len = max len1 len2
           in 1 - real distance / real max_len)"

text \<open>
  \<^verbatim>\<open>DealMatcher._jaro_winkler_similarity\<close>. The match window bounds are Python integers
  (\<open>match_distance\<close> is \<open>-1\<close> for strings of length one). The inner \<^verbatim>\<open>for j\<close> loop with its
  \<^verbatim>\<open>break\<close> is the search for the first admissible \<open>j\<close>; the \<^verbatim>\<open>while not s2_matches[k]\<close>
  loop is the search for the next set flag and raises \<open>IndexError\<close> when there is none.
\<close>

definition jw_match_step ::
  "'a list \<Rightarrow> 'a list \<Rightarrow> int \<Rightarrow> nat \<Rightarrow> bool list \<times> bool list \<times> nat \<Rightarrow> bool list \<times> bool list \<times> nat" where
  "jw_match_step s1 s2 match_distance i st =
     (case st of (s1_matches, s2_matches, matches) \<Rightarrow>
        let start = max 0 (int i - match_distance);
            end = min (int i + match_distance + 1) (int (length s2))
        in case List.find (\<lambda>j. \<not> (s2_matches ! j \<or> s1 ! i \<noteq> s2 ! j)) [nat start..<nat end] of
             None \<Rightarrow> (s1_matches, s2_matches, matches)
           | Some j \<Rightarrow> (s1_matches[i := True], s2_matches[j := True], matches + 1))"

definition jw_find_matches :: "'a list \<Rightarrow> 'a list \<Rightarrow> bool list \<times> bool list \<times> nat" where
  "jw_find_matches s1 s2 =
     (let len1 = length s1; len2 = length s2;
          match_distance = int (max len1 len2) div 2 - 1
      in fold (jw_match_step s1 s2 match_distance) [0..<len1]
           (replicate len1 False, replicate len2 False, 0))"

definition jw_transp_step ::
  "'a list \<Rightarrow> 'a list \<Rightarrow> bool list \<Rightarrow> bool list \<Rightarrow> nat \<Rightarrow> py_error + nat \<times> nat \<Rightarrow> py_error + nat \<times> nat" where
  "jw_transp_step s1 s2 s1_matches s2_matches i st =
     (case st of Inl e \<Rightarrow> Inl e
      | Inr (k, transpositions) \<Rightarrow>
          if \<not> s1_matches ! i then Inr (k, transpositions)
          else case List.find (\<lambda>k'. s2_matches ! k') [k..<length s2_matches] of
                 None \<Rightarrow> Inl IndexError
               | Some k' \<Rightarrow>
                   Inr (k' + 1, if s1 ! i \<noteq> s2 ! k' then transpositions + 1 else transpositions))"

definition jw_transpositions ::
  "'a list \<Rightarrow> 'a list \<Rightarrow> bool list \<Rightarrow> bool list \<Rightarrow> py_error + nat \<times> nat" where
  "jw_transpositions s1 s2 s1_matches s2_matches =
     fold (jw_transp_step s1 s2 s1_matches s2_matches) [0..<length s1] (Inr (0, 0))"

definition jw_prefix :: "'a list \<Rightarrow> 'a list \<Rightarrow> nat" where
  "jw_prefix s1 s2 = length (takeWhile (\<lambda>i. s1 ! i = s2 ! i) [0..<min (min (length s1) (length s2)) 4])"

definition jaro_winkler_similarity :: "'a list \<Rightarrow> 'a list \<Rightarrow> py_error + real" where
  "jaro_winkler_similarity s1 s2 =
     (if s1 = [] \<or> s2 = [] then Inr 0
      else if s1 = s2 then Inr 1
      else case jw_find_matches s1 s2 of (s1_matches, s2_matches, matches) \<Rightarrow>
        if matches = 0 then Inr 0
        else case jw_transpositions s1 s2 s1_matches s2_matches of
               Inl e \<Rightarrow> Inl e
             | Inr (k, transpositions) \<Rightarrow>
                 let len1 = length s1; len2 = length s2;
                     jaro = (real matches / real len1 + real matches / real len2 +
                             (real matches - real transpositions / 2) / real matches) / 3;
                     prefix = jw_prefix s1 s2
                 in Inr (jaro + real prefix * (1 / 10) * (1 - jaro)))"

text \<open>Loop invariants used in the proofs about the similarity features.\<close>

definition lev_inv :: "nat \<Rightarrow> nat \<Rightarrow> nat list list \<Rightarrow> bool" where
  "lev_inv len1 len2 m \<longleftrightarrow>
     length m = len1 + 1 \<and>
     (\<forall>i \<le> len1. length (m ! i) = len2 + 1 \<and> (\<forall>j \<le> len2. m ! i ! j \<le> max i j))"

definition countT :: "bool list \<Rightarrow> nat" where
  "countT xs = length (filter (\<lambda>b. b) xs)"

definition jw_inv1 :: "nat \<Rightarrow> nat \<Rightarrow> nat \<Rightarrow> bool list \<times> bool list \<times> nat \<Rightarrow> bool" where
  "jw_inv1 len1 len2 n st =
     (case st of (s1m, s2m, m) \<Rightarrow>
        length s1m = len1 \<and> length s2m = len2 \<and> m \<le> n \<and> countT s1m \<le> m \<and> m = countT s2m)"

definition jw_inv2 :: "bool list \<Rightarrow> bool list \<Rightarrow> nat \<Rightarrow> py_error + nat \<times> nat \<Rightarrow> bool" where
  "jw_inv2 s1m s2m n st =
     (case st of Inl e \<Rightarrow> False
      | Inr (k, t) \<Rightarrow> k \<le> length s2m \<and> countT (take k s2m) = countT (take n s1m) \<and>
                       t \<le> countT (take n s1m))"

section \<open>Phase 3: the classifier of the deal matcher\<close>

text \<open>
  The random-forest classifier belongs to scikit-learn. A classifier object is either
  freshly constructed or fitted; a fitted one is named by a number. What happens behind
  the two guards of \<^verbatim>\<open>train\<close> is a parameter of the model: given the labelled examples, an
  exception while the feature vectors are computed, an exception of the fit, an
  exception after it (scoring, saving), or a fitted classifier with its metrics. The flag
  \<open>sk\<close> is the module constant \<^verbatim>\<open>SKLEARN_AVAILABLE\<close>.
\<close>

datatype classifier = Unfitted | Fitted nat

type_synonym product = "(string \<times> pyval) list"

record training_example =
  te_deal :: ExtractedDeal
  te_product :: product
  te_is_match :: bool

record train_metrics =
  train_accuracy :: real
  validation_accuracy :: real
  samples_trained :: nat
  samples_validated :: nat

datatype train_result = TrainError string | TrainMetrics train_metrics

datatype fit_outcome =
  RaisedBeforeFit py_error | RaisedInFit py_error | RaisedAfterFit nat py_error
  | FitDone nat train_metrics

type_synonym fitter = "training_example list \<Rightarrow> fit_outcome"

record DealMatcher =
  model :: "classifier option"
  model_path :: "string option"

text \<open>\<^verbatim>\<open>DealMatcher.train\<close>. The two guards return an error dictionary. After them the new
  classifier object is assigned to \<^verbatim>\<open>self.model\<close> after the feature vectors are computed and
  before it is fitted, so an exception of the fit leaves an unfitted classifier behind.\<close>

definition train ::
  "bool \<Rightarrow> fitter \<Rightarrow> DealMatcher \<Rightarrow> training_example list \<Rightarrow> DealMatcher \<times> (py_error + train_result)" where
  "train sk fit dm training_data =
     (if \<not> sk then (dm, Inr (TrainError ''sklearn not available''))
      else if length training_data < 10 then (dm, Inr (TrainError ''insufficient training data''))
      else case fit training_data of
             RaisedBeforeFit e \<Rightarrow> (dm, Inl e)
           | RaisedInFit e \<Rightarrow> (dm\<lparr>model := Some Unfitted\<rparr>, Inl e)
           | RaisedAfterFit n e \<Rightarrow> (dm\<lparr>model := Some (Fitted n)\<rparr>, Inl e)
           | FitDone n metrics \<Rightarrow> (dm\<lparr>model := Some (Fitted n)\<rparr>, Inr (TrainMetrics metrics)))"



section \<open>The accuracy tracker\<close>

record AccuracyMetrics =
  total_deals :: int
  correct_matches :: int
  incorrect_matches :: int
  corrections_received :: int

definition new_metrics :: AccuracyMetrics where
  "new_metrics = \<lparr>total_deals = 0, correct_matches = 0, incorrect_matches = 0,
                  corrections_received = 0\<rparr>"

definition metrics_accuracy :: "AccuracyMetrics \<Rightarrow> real" where
  "metrics_accuracy m =
     (if total_deals m = 0 then 0 else real_of_int (correct_matches m) / real_of_int (total_deals m))"

text \<open>A history entry. The time stamp is the datetime that \<^verbatim>\<open>datetime.fromisoformat\<close> reads
  from the stored string, in microseconds; \<open>None\<close> stands for a string it rejects.\<close>

record history_entry =
  h_timestamp :: "int option"
  h_is_correct :: bool
  h_phase :: int
  h_deal_type :: string

record StoreAccuracy =
  sa_store_name :: string
  overall :: AccuracyMetrics
  by_phase :: "(int \<times> AccuracyMetrics) list"
  by_deal_type :: "(string \<times> AccuracyMetrics) list"
  history :: "history_entry list"

definition new_store_accuracy :: "string \<Rightarrow> StoreAccuracy" where
  "new_store_accuracy n =
     \<lparr>sa_store_name = n, overall = new_metrics, by_phase = [], by_deal_type = [], history = []\<rparr>"

record AccuracyTracker =
  stores :: "(string \<times> StoreAccuracy) list"
  global_metrics :: AccuracyMetrics

definition new_tracker :: AccuracyTracker where
  "new_tracker = \<lparr>stores = [], global_metrics = new_metrics\<rparr>"


definition dict_get :: "('k \<times> 'v) list \<Rightarrow> 'k \<Rightarrow> 'v \<Rightarrow> 'v" where
  "dict_get d k dflt = (case map_of d k of None \<Rightarrow> dflt | Some v \<Rightarrow> v)"


definition bump_correction :: "AccuracyMetrics \<Rightarrow> AccuracyMetrics" where
  "bump_correction m = m\<lparr>corrections_received := corrections_received m + 1\<rparr>"

definition add_correction :: "int \<Rightarrow> string \<Rightarrow> StoreAccuracy \<Rightarrow> StoreAccuracy" where
  "add_correction phase dtype sa =
     sa\<lparr>overall := bump_correction (overall sa),
        by_phase := (case map_of (by_phase sa) phase of
                       None \<Rightarrow> by_phase sa
                     | Some m \<Rightarrow> dict_set (by_phase sa) phase (bump_correction m)),
        by_deal_type := (case map_of (by_deal_type sa) dtype of
                           None \<Rightarrow> by_deal_type sa
                         | Some m \<Rightarrow> dict_set (by_deal_type sa) dtype (bump_correction m))\<rparr>"


definition record_correction :: "AccuracyTracker \<Rightarrow> string \<Rightarrow> int \<Rightarrow> string \<Rightarrow> AccuracyTracker" where
  "record_correction tr store phase dtype =
     (let store_lower = py_lower store;
          sa = dict_get (stores tr) store_lower (new_store_accuracy store_lower)
      in tr\<lparr>stores := dict_set (stores tr) store_lower (add_correction phase dtype sa),
            global_metrics := bump_correction (global_metrics tr)\<rparr>)"

text \<open>\<^verbatim>\<open>get_phase_accuracy(phase)['accuracy']\<close>: totals over all stores that have the phase.\<close>

definition get_phase_accuracy :: "AccuracyTracker \<Rightarrow> int \<Rightarrow> real" where
  "get_phase_accuracy tr phase =
     (let ms = List.map_filter (\<lambda>(n, sa). map_of (by_phase sa) phase) (stores tr);
          total = sum_list (map total_deals ms);
          correct = sum_list (map correct_matches ms)
      in if total > 0 then real_of_int correct / real_of_int total else 0)"

subsection \<open>Trend and target-date projection\<close>











record prediction =
  target_accuracy :: real
  current_accuracy :: "real option"
  prediction_kind :: string
  estimated_date :: "int option"
  estimated_days :: "int option"
  daily_improvement :: "real option"


section \<open>The progressive learner\<close>

datatype LearningPhase = PHASE_1_REGEX | PHASE_2_TEMPLATE | PHASE_3_ML

fun phase_value :: "LearningPhase \<Rightarrow> int" where
  "phase_value PHASE_1_REGEX = 1"
| "phase_value PHASE_2_TEMPLATE = 2"
| "phase_value PHASE_3_ML = 3"

record PhaseTransitionConfig =
  min_ads_for_phase_2 :: int
  min_corrections_for_phase_2 :: int
  min_ads_for_phase_3 :: int
  min_corrections_for_phase_3 :: int
  min_accuracy_for_phase_3 :: real
  ml_retrain_threshold :: int

definition default_config :: PhaseTransitionConfig where
  "default_config =
     \<lparr>min_ads_for_phase_2 = 5, min_corrections_for_phase_2 = 20, min_ads_for_phase_3 = 15,
      min_corrections_for_phase_3 = 50, min_accuracy_for_phase_3 = 55 / 100,
      ml_retrain_threshold = 10\<rparr>"

record ProductMatch =
  pm_deal :: ExtractedDeal
  pm_product_id :: string
  pm_product_name :: string
  pm_category :: string
  match_score :: real
  is_verified :: bool

record ProcessingResult =
  pr_deals :: "ExtractedDeal list"
  pr_matches :: "ProductMatch list"
  phase_used :: LearningPhase
  pr_confidence :: real
  pr_store :: "string option"
  pr_metadata :: "(string \<times> int) list"

record CorrectionRecord =
  correction_id :: string
  cr_store :: string
  cr_original_deal :: ExtractedDeal
  cr_corrected_deal :: ExtractedDeal
  cr_original_match :: "ProductMatch option"
  cr_corrected_match :: "ProductMatch option"
  phase_at_correction :: int
  cr_raw_text :: string

text \<open>What \<^verbatim>\<open>_save_state\<close> writes: the state file, and the training examples with five
  fields of each deal.\<close>

record saved_state =
  ss_current_phase :: int
  ss_ads_processed :: "(string \<times> int) list"
  ss_total_corrections :: int
  ss_pending_corrections_for_retrain :: int
  ss_training_data_count :: nat

record saved_deal =
  sd_raw_text :: string
  sd_deal_type :: DealType
  sd_product_name :: "string option"
  sd_price :: "real option"
  sd_confidence :: real

record saved_example =
  se_deal :: saved_deal
  se_product :: product
  se_is_match :: bool

record learner_disk =
  learner_state_json :: "saved_state option"
  training_data_json :: "saved_example list option"
  other_files :: files

text \<open>The learner object with the components it owns and the directory it writes to.\<close>

record ProgressiveLearner =
  config :: PhaseTransitionConfig
  catalog_products :: "product list"
  template_parser :: TemplateDealParser
  ml_matcher :: DealMatcher
  accuracy_tracker :: AccuracyTracker
  current_phase :: LearningPhase
  corrections :: "CorrectionRecord list"
  ads_processed :: "(string \<times> int) list"
  total_corrections :: int
  training_data :: "training_example list"
  pending_corrections_for_retrain :: int
  disk :: learner_disk

text \<open>What the learner takes from outside: the pattern compiler, the availability of
  scikit-learn, the fitting of a classifier and the scoring of deals by a fitted one.\<close>

record environment =
  env_compile :: re_compiler
  env_sk :: bool
  env_fit :: fitter
  env_match :: "classifier \<Rightarrow> ExtractedDeal list \<Rightarrow> py_error + ProductMatch list"

definition deals_similar :: "ExtractedDeal \<Rightarrow> ExtractedDeal \<Rightarrow> bool" where
  "deals_similar deal1 deal2 =
     (if truthy_real (price deal1) \<and> truthy_real (price deal2) \<and>
         \<bar>the (price deal1) - the (price deal2)\<bar> < 1 / 100 then True
      else if raw_text deal1 \<noteq> [] \<and> raw_text deal2 \<noteq> [] \<and>
              (py_in (raw_text deal1) (raw_text deal2) \<or> py_in (raw_text deal2) (raw_text deal1))
      then True
      else False)"

definition merge_results :: "ExtractedDeal list \<Rightarrow> ExtractedDeal list \<Rightarrow> ExtractedDeal list" where
  "merge_results template_deals regex_deals =
     fold (\<lambda>regex_deal merged.
             if list_ex (\<lambda>template_deal. deals_similar regex_deal template_deal) template_deals
             then merged else merged @ [regex_deal])
          regex_deals template_deals"

definition phase_weight :: "LearningPhase \<Rightarrow> real" where
  "phase_weight ph = (case ph of PHASE_1_REGEX \<Rightarrow> 35 / 100 | PHASE_2_TEMPLATE \<Rightarrow> 55 / 100
                      | PHASE_3_ML \<Rightarrow> 75 / 100)"

definition learner_calculate_confidence ::
  "ExtractedDeal list \<Rightarrow> ProductMatch list \<Rightarrow> LearningPhase \<Rightarrow> real" where
  "learner_calculate_confidence deals matches ph =
     (if deals = [] then 0
      else let deal_confidence = sum_list (map confidence deals) / real (length deals);
               match_confidence = (if matches \<noteq> []
                                   then sum_list (map match_score matches) / real (length matches)
                                   else 0);
               c = (if matches \<noteq> []
                    then 4 / 10 * deal_confidence + 4 / 10 * match_confidence + 2 / 10 * phase_weight ph
                    else 6 / 10 * deal_confidence + 4 / 10 * phase_weight ph)
           in min c 1)"

text \<open>\<^verbatim>\<open>_retrain_ml_model\<close>: any exception of the training is caught and reported.\<close>

datatype retrain_status =
  Skipped string | Success train_result | RetrainError py_error

definition retrain_ml_model ::
  "environment \<Rightarrow> ProgressiveLearner \<Rightarrow> ProgressiveLearner \<times> retrain_status" where
  "retrain_ml_model env l =
     (if length (training_data l) < 10 then (l, Skipped ''insufficient_data'')
      else case train (env_sk env) (env_fit env) (ml_matcher l) (training_data l) of
             (dm, Inr result) \<Rightarrow>
               (l\<lparr>ml_matcher := dm, pending_corrections_for_retrain := 0\<rparr>, Success result)
           | (dm, Inl e) \<Rightarrow> (l\<lparr>ml_matcher := dm\<rparr>, RetrainError e))"

definition total_ads :: "ProgressiveLearner \<Rightarrow> int" where
  "total_ads l = sum_list (map snd (ads_processed l))"

definition check_phase_advancement ::
  "environment \<Rightarrow> ProgressiveLearner \<Rightarrow> ProgressiveLearner \<times> bool" where
  "check_phase_advancement env l =
     (case current_phase l of
        PHASE_1_REGEX \<Rightarrow>
          if total_ads l \<ge> min_ads_for_phase_2 (config l) \<or>
             total_corrections l \<ge> min_corrections_for_phase_2 (config l)
          then (l\<lparr>current_phase := PHASE_2_TEMPLATE\<rparr>, True)
          else (l, False)
      | PHASE_2_TEMPLATE \<Rightarrow>
          let current_accuracy = get_phase_accuracy (accuracy_tracker l) 2
          in if (total_ads l \<ge> min_ads_for_phase_3 (config l) \<or>
                 total_corrections l \<ge> min_corrections_for_phase_3 (config l)) \<and>
                current_accuracy \<ge> min_accuracy_for_phase_3 (config l)
             then (let l1 = (if training_data l \<noteq> [] then fst (retrain_ml_model env l) else l)
                   in (l1\<lparr>current_phase := PHASE_3_ML\<rparr>, True))
             else (l, False)
      | PHASE_3_ML \<Rightarrow> (l, False))"

text \<open>\<^verbatim>\<open>process_ad\<close>. The ad counter is incremented first; an exception of a parser or of the
  matcher leaves the method there, with the state as it is at that point.\<close>

definition process_ad ::
  "environment \<Rightarrow> ProgressiveLearner \<Rightarrow> string \<Rightarrow> string option \<Rightarrow> ocr_block list option
     \<Rightarrow> ProgressiveLearner \<times> (py_error + ProcessingResult)" where
  "process_ad env l ad_text store coordinates =
     (let store_lower = py_lower (if truthy_str store then the store else ''unknown'');
          l = l\<lparr>ads_processed := dict_set (ads_processed l) store_lower
                                   (dict_get (ads_processed l) store_lower 0 + 1)\<rparr>
      in case regex_parse None ad_text of
           Inl e \<Rightarrow> (l, Inl e)
         | Inr regex_results \<Rightarrow>
        case (if phase_value (current_phase l) \<ge> phase_value PHASE_2_TEMPLATE
              then (case template_parse (env_compile env) (template_parser l) ad_text store coordinates of
                      Inl e \<Rightarrow> Inl e
                    | Inr template_results \<Rightarrow>
                        if template_results \<noteq> []
                        then Inr (merge_results template_results regex_results, PHASE_2_TEMPLATE)
                        else Inr (regex_results, PHASE_1_REGEX))
              else Inr (regex_results, PHASE_1_REGEX)) of
           Inl e \<Rightarrow> (l, Inl e)
         | Inr (deals, phase_used2) \<Rightarrow>
        case (if phase_value (current_phase l) \<ge> phase_value PHASE_3_ML \<and>
                 model (ml_matcher l) \<noteq> None \<and> catalog_products l \<noteq> []
              then (case env_match env (the (model (ml_matcher l))) deals of
                      Inl e \<Rightarrow> Inl e
                    | Inr matches \<Rightarrow> Inr (matches, PHASE_3_ML))
              else Inr ([], phase_used2)) of
           Inl e \<Rightarrow> (l, Inl e)
         | Inr (matches, phase_used3) \<Rightarrow>
             let c = learner_calculate_confidence deals matches phase_used3;
                 l2 = fst (check_phase_advancement env l)
             in (l2, Inr \<lparr>pr_deals = deals, pr_matches = matches, phase_used = phase_used3,
                          pr_confidence = c, pr_store = store,
                          pr_metadata = [(''regex_count'', int (length regex_results)),
                                         (''total_deals'', int (length deals)),
                                         (''matches_found'', int (length matches)),
                                         (''ads_processed_for_store'',
                                          dict_get (ads_processed l2) store_lower 0)]\<rparr>))"

text \<open>\<^verbatim>\<open>_save_state\<close>: the state file is always written, the training file only when there
  are training examples.\<close>

definition save_deal :: "ExtractedDeal \<Rightarrow> saved_deal" where
  "save_deal d = \<lparr>sd_raw_text = raw_text d, sd_deal_type = deal_type d,
                  sd_product_name = product_name d, sd_price = price d,
                  sd_confidence = confidence d\<rparr>"

definition save_example :: "training_example \<Rightarrow> saved_example" where
  "save_example e = \<lparr>se_deal = save_deal (te_deal e), se_product = te_product e,
                     se_is_match = te_is_match e\<rparr>"

definition state_snapshot :: "ProgressiveLearner \<Rightarrow> saved_state" where
  "state_snapshot l =
     \<lparr>ss_current_phase = phase_value (current_phase l),
      ss_ads_processed = ads_processed l,
      ss_total_corrections = total_corrections l,
      ss_pending_corrections_for_retrain = pending_corrections_for_retrain l,
      ss_training_data_count = length (training_data l)\<rparr>"

definition save_state :: "ProgressiveLearner \<Rightarrow> ProgressiveLearner" where
  "save_state l =
     (let d = (disk l)\<lparr>learner_state_json := Some (state_snapshot l)\<rparr>;
          d = (if training_data l \<noteq> []
               then d\<lparr>training_data_json := Some (map save_example (training_data l))\<rparr>
               else d)
      in l\<lparr>disk := d\<rparr>)"

text \<open>\<^verbatim>\<open>force_phase\<close>, the escape hatch.\<close>

definition force_phase :: "ProgressiveLearner \<Rightarrow> int \<Rightarrow> ProgressiveLearner" where
  "force_phase l ph =
     (if ph = 1 then save_state (l\<lparr>current_phase := PHASE_1_REGEX\<rparr>)
      else if ph = 2 then save_state (l\<lparr>current_phase := PHASE_2_TEMPLATE\<rparr>)
      else if ph = 3 then save_state (l\<lparr>current_phase := PHASE_3_ML\<rparr>)
      else l)"

text \<open>\<^verbatim>\<open>learn_from_correction\<close>. The result dictionary is the record \<open>correction_result\<close>.\<close>

record correction_result =
  res_correction_id :: string
  res_total_corrections :: int
  res_current_phase :: int
  actions_taken :: "string list"
  ml_retrain :: "retrain_status option"
  phase_advanced :: bool
  new_phase :: "int option"

definition product_str :: "product \<Rightarrow> string \<Rightarrow> string" where
  "product_str p k = (case map_of p k of Some (PStr s) \<Rightarrow> s | _ \<Rightarrow> [])"

text \<open>The steps of \<^verbatim>\<open>learn_from_correction\<close> in their order: the correction record and the
  two counters, the template parser, the training examples, the accuracy tracker.\<close>

definition has_product :: "product option \<Rightarrow> bool" where
  "has_product corrected_product = (corrected_product \<noteq> None \<and> corrected_product \<noteq> Some [])"

definition record_step ::
  "ProgressiveLearner \<Rightarrow> string \<Rightarrow> ExtractedDeal \<Rightarrow> ExtractedDeal \<Rightarrow> string \<Rightarrow> string
     \<Rightarrow> ProductMatch option \<Rightarrow> product option \<Rightarrow> ProgressiveLearner" where
  "record_step l deal_id original_deal corrected_deal raw store original_match corrected_product =
     (let correction =
            \<lparr>correction_id = deal_id, cr_store = store, cr_original_deal = original_deal,
             cr_corrected_deal = corrected_deal, cr_original_match = original_match,
             cr_corrected_match =
               (if has_product corrected_product
                then Some \<lparr>pm_deal = corrected_deal,
                           pm_product_id = product_str (the corrected_product) ''id'',
                           pm_product_name = product_str (the corrected_product) ''name'',
                           pm_category = product_str (the corrected_product) ''category'',
                           match_score = 1, is_verified = True\<rparr>
                else None),
             phase_at_correction = phase_value (current_phase l), cr_raw_text = raw\<rparr>
      in l\<lparr>corrections := corrections l @ [correction],
            total_corrections := total_corrections l + 1,
            pending_corrections_for_retrain := pending_corrections_for_retrain l + 1\<rparr>)"

definition template_step ::
  "string \<Rightarrow> ProgressiveLearner \<Rightarrow> string \<Rightarrow> ExtractedDeal \<Rightarrow> ExtractedDeal \<Rightarrow> string
     \<Rightarrow> ProgressiveLearner" where
  "template_step now l store original_deal corrected_deal raw =
     (case template_learn_from_correction now (template_parser l) (other_files (disk l))
             store original_deal corrected_deal raw of
        (tp, fs) \<Rightarrow> l\<lparr>template_parser := tp, disk := (disk l)\<lparr>other_files := fs\<rparr>\<rparr>)"

definition adds_training :: "ProductMatch option \<Rightarrow> product option \<Rightarrow> bool" where
  "adds_training original_match corrected_product =
     (original_match \<noteq> None \<and> has_product corrected_product)"

definition training_step ::
  "ProgressiveLearner \<Rightarrow> ExtractedDeal \<Rightarrow> ExtractedDeal \<Rightarrow> ProductMatch option \<Rightarrow> product option
     \<Rightarrow> ProgressiveLearner" where
  "training_step l original_deal corrected_deal original_match corrected_product =
     (if adds_training original_match corrected_product
      then l\<lparr>training_data := training_data l @
               [\<lparr>te_deal = original_deal,
                 te_product = [(''id'', PStr (pm_product_id (the original_match))),
                               (''name'', PStr (pm_product_name (the original_match))),
                               (''category'', PStr (pm_category (the original_match)))],
                 te_is_match = False\<rparr>,
                \<lparr>te_deal = corrected_deal, te_product = the corrected_product,
                 te_is_match = True\<rparr>]\<rparr>
      else l)"

definition tracker_step :: "ProgressiveLearner \<Rightarrow> string \<Rightarrow> ExtractedDeal \<Rightarrow> ProgressiveLearner" where
  "tracker_step l store original_deal =
     l\<lparr>accuracy_tracker :=
         record_correction (accuracy_tracker l) store (phase_value (current_phase l))
           (deal_type_value (deal_type original_deal))\<rparr>"

definition retrain_step ::
  "environment \<Rightarrow> ProgressiveLearner \<Rightarrow> ProgressiveLearner \<times> retrain_status option" where
  "retrain_step env l =
     (if current_phase l = PHASE_3_ML \<and>
         pending_corrections_for_retrain l \<ge> ml_retrain_threshold (config l)
      then (case retrain_ml_model env l of (l', status) \<Rightarrow> (l', Some status))
      else (l, None))"

definition learn_from_correction ::
  "environment \<Rightarrow> string \<Rightarrow> ProgressiveLearner \<Rightarrow> string \<Rightarrow> ExtractedDeal \<Rightarrow> ExtractedDeal \<Rightarrow> string
     \<Rightarrow> string \<Rightarrow> ProductMatch option \<Rightarrow> product option
     \<Rightarrow> ProgressiveLearner \<times> correction_result" where
  "learn_from_correction env now l deal_id original_deal corrected_deal raw store original_match
       corrected_product =
     (let l1 = record_step l deal_id original_deal corrected_deal raw store original_match
                 corrected_product;
          l2 = template_step now l1 store original_deal corrected_deal raw;
          l3 = training_step l2 original_deal corrected_deal original_match corrected_product;
          l4 = tracker_step l3 store original_deal;
          l5 = fst (retrain_step env l4);
          retrain = snd (retrain_step env l4);
          l6 = fst (check_phase_advancement env l5);
          advanced = snd (check_phase_advancement env l5);
          l7 = save_state l6
      in (l7,
          \<lparr>res_correction_id = deal_id,
           res_total_corrections = total_corrections l1,
           res_current_phase = phase_value (current_phase l1),
           actions_taken =
             [''template_updated''] @
             (if adds_training original_match corrected_product then [''training_data_added''] else []) @
             (if retrain \<noteq> None then [''ml_model_retrained''] else []),
           ml_retrain = retrain,
           phase_advanced = advanced,
           new_phase = (if advanced then Some (phase_value (current_phase l6)) else None)\<rparr>))"

text \<open>Two intermediate states named in the proofs: the learner after \<^verbatim>\<open>process_ad\<close> has
  counted the ad, and the learner of \<^verbatim>\<open>learn_from_correction\<close> just before the phase guards
  are checked.\<close>

definition count_ad :: "ProgressiveLearner \<Rightarrow> string option \<Rightarrow> ProgressiveLearner" where
  "count_ad l store =
     l\<lparr>ads_processed :=
         dict_set (ads_processed l) (py_lower (if truthy_str store then the store else ''unknown''))
           (dict_get (ads_processed l)
              (py_lower (if truthy_str store then the store else ''unknown'')) 0 + 1)\<rparr>"

definition before_check ::
  "environment \<Rightarrow> string \<Rightarrow> ProgressiveLearner \<Rightarrow> string \<Rightarrow> ExtractedDeal \<Rightarrow> ExtractedDeal \<Rightarrow> string
     \<Rightarrow> string \<Rightarrow> ProductMatch option \<Rightarrow> product option \<Rightarrow> ProgressiveLearner" where
  "before_check env now l deal_id od cd raw store om cp =
     fst (retrain_step env (tracker_step (training_step (template_step now
       (record_step l deal_id od cd raw store om cp) store od cd raw) od cd om cp) store od))"






text \<open>A learner as the constructor leaves it in an empty data directory.\<close>

definition new_learner :: "PhaseTransitionConfig \<Rightarrow> ProgressiveLearner" where
  "new_learner cfg =
     \<lparr>config = cfg, catalog_products = [],
      template_parser = TemplateDealParser_init (Some ''templates.json'') (\<lambda>p. None),
      ml_matcher = \<lparr>model = None, model_path = Some ''deal_matcher.pkl''\<rparr>,
      accuracy_tracker = new_tracker, current_phase = PHASE_1_REGEX, corrections = [],
      ads_processed = [], total_corrections = 0, training_data = [],
      pending_corrections_for_retrain = 0,
      disk = \<lparr>learner_state_json = None, training_data_json = None, other_files = (\<lambda>p. None)\<rparr>\<rparr>"

text \<open>The persisted state agrees with the state in memory.\<close>

definition persisted :: "ProgressiveLearner \<Rightarrow> bool" where
  "persisted l =
     (learner_state_json (disk l) = Some (state_snapshot l) \<and>
      (if training_data l = [] then True
       else training_data_json (disk l) = Some (map save_example (training_data l))))"

section \<open>The duplicate test in the words of the specification\<close>





section \<open>Concrete inputs\<close>

text \<open>A template parser as the constructor leaves it without a templates file, and an
  environment with the default pattern compiler, scikit-learn present, a fit that returns
  classifier number 1 and a matcher that finds nothing.\<close>

definition default_parser :: TemplateDealParser where
  "default_parser = TemplateDealParser_init None (\<lambda>p. None)"

definition example_metrics :: train_metrics where
  "example_metrics = \<lparr>train_accuracy = 1, validation_accuracy = 1, samples_trained = 8,
                       samples_validated = 2\<rparr>"

definition example_env :: environment where
  "example_env = \<lparr>env_compile = default_compile, env_sk = True,
                   env_fit = (\<lambda>td. FitDone 1 example_metrics),
                   env_match = (\<lambda>c ds. Inr [])\<rparr>"

text \<open>Learners in phase 1 with given totals of ads and corrections.\<close>

definition learner_at :: "int \<Rightarrow> int \<Rightarrow> ProgressiveLearner" where
  "learner_at ads corr =
     (new_learner default_config)\<lparr>ads_processed := [(''kroger'', ads)], total_corrections := corr\<rparr>"









text \<open>A correction of the price 9.99 to 5.99 for a store without a template, and a
  parser that saves to \<^verbatim>\<open>templates.json\<close>.\<close>

definition wrong_price_deal :: ExtractedDeal where
  "wrong_price_deal = (new_deal ''Chicken $9.99'' PRICE)\<lparr>price := Some (999 / 100)\<rparr>"

definition right_price_deal :: ExtractedDeal where
  "right_price_deal = (new_deal ''Chicken $5.99'' PRICE)\<lparr>price := Some (599 / 100)\<rparr>"

definition saving_parser :: TemplateDealParser where
  "saving_parser = TemplateDealParser_init (Some ''templates.json'') (\<lambda>p. None)"

section \<open>Properties of the regex deal parser\<close>

text \<open>
  Claim C1. For every input string, \<^verbatim>\<open>RegexDealParser.parse\<close> returns a list of deals and
  never raises; the worst case is an empty list. The parser does return the empty list on
  the empty text, but a multi-buy match with quantity zero raises \<open>ZeroDivisionError\<close>:
  on \<^verbatim>\<open>0 for $5\<close>, and on a price pair such as \<^verbatim>\<open>$3.00/$2.50\<close>, where the cents \<^verbatim>\<open>00\<close> before
  the slash are read as the quantity.
\<close>

theorem regex_parse_zero_quantity_raises:
  "regex_parse None ''0 for $5'' = Inl ZeroDivisionError \<and>
   regex_parse None ''$3.00/$2.50'' = Inl ZeroDivisionError \<and>
   regex_parse None [] = Inr []"
  by code_simp

text \<open>
  Claim C6. Parsing \<^verbatim>\<open>3 for $6.00\<close> yields exactly one deal, a multi-buy with quantity 3 and
  unit price 2.00. The multi-buy deal is extracted, but the word \<^verbatim>\<open>for\<close> is taken as the
  product name of the overlapping plain price \<^verbatim>\<open>$6.00\<close>, whose information score 5 then
  beats the multi-buy's score 2 in the deduplication: the one deal returned is a plain
  price of 6.00 without a quantity.
\<close>

theorem regex_parse_3_for_6:
  "regex_parse None ''3 for $6.00'' =
     Inr [\<lparr>raw_text = ''$6.00'', deal_type = PRICE, product_name = Some ''For'',
           price = Some 6, unit = None, quantity = None, discount_amount = None,
           discount_percent = None, original_price = None, confidence = 3 / 4,
           position = (6, 11), metadata = [(''pattern'', PStr ''price'')]\<rparr>]"
  by code_simp

text \<open>The multi-buy deal is among the extracted candidates, and it survives when text
  before it gives it a product name of its own.\<close>

lemma extract_multi_buy_3_for_6:
  "extract_multi_buy ''3 for $6.00'' =
     Inr [\<lparr>raw_text = ''3 for $6.00'', deal_type = MULTI_BUY, product_name = None,
           price = Some 2, unit = None, quantity = Some 3, discount_amount = None,
           discount_percent = None, original_price = None, confidence = 0,
           position = (0, 11),
           metadata = [(''pattern'', PStr ''multi_buy''), (''total_price'', PFloat 6)]\<rparr>]"
  by code_simp

lemma regex_parse_slash_format:
  "map (\<lambda>d. (deal_type d, quantity d, price d)) (projr (regex_parse None ''Canned Tomatoes 3/$6.00''))
     = [(MULTI_BUY, Some 3, Some 2)]"
  by code_simp

lemma regex_confidence_range: "3 / 10 \<le> regex_confidence d \<and> regex_confidence d \<le> 1"
  by (simp add: regex_confidence_def Let_def)

lemma regex_calculate_confidence_range:
  "d \<in> set (regex_calculate_confidence deals) \<Longrightarrow> 0 \<le> confidence d \<and> confidence d \<le> 1"
proof -
  assume "d \<in> set (regex_calculate_confidence deals)"
  then obtain d' where "d = d'\<lparr>confidence := regex_confidence d'\<rparr>"
    by (auto simp: regex_calculate_confidence_def)
  then show ?thesis using regex_confidence_range[of d'] by simp
qed

lemma regex_parse_confidence:
  assumes "regex_parse hint text = Inr deals" "d \<in> set deals"
  shows "0 \<le> confidence d \<and> confidence d \<le> 1"
proof -
  from assms(1) obtain ds where "deals = regex_calculate_confidence ds"
    by (auto simp: regex_parse_def Let_def split: sum.splits)
  with assms(2) show ?thesis using regex_calculate_confidence_range by blast
qed

lemma template_confidence_range: "4 / 10 \<le> template_confidence t d \<and> template_confidence t d \<le> 1"
  by (cases t) (auto simp: template_confidence_def Let_def min_def)

lemma template_parse_confidence:
  assumes "template_parse compile tp text store coordinates = Inr deals" "d \<in> set deals"
  shows "0 \<le> confidence d \<and> confidence d \<le> 1"
proof -
  from assms(1) obtain ds t where "deals = template_calculate_confidence ds t"
    by (auto simp: template_parse_def Let_def split: sum.splits)
  with assms(2) obtain d' where "d = d'\<lparr>confidence := template_confidence t d'\<rparr>"
    by (auto simp: template_calculate_confidence_def)
  then show ?thesis using template_confidence_range[of t d'] by simp
qed

text \<open>
  Claim C2. For every input text, every deal returned by \<^verbatim>\<open>RegexDealParser.parse\<close> and by
  \<^verbatim>\<open>TemplateDealParser.parse\<close> has its confidence in \<open>[0, 1]\<close>, whatever the store hint, the
  templates, the compiled patterns and the OCR coordinates are.
\<close>

theorem parsed_confidence_in_unit_interval:
  "(regex_parse hint text = Inr deals \<longrightarrow>
      (\<forall>d \<in> set deals. 0 \<le> confidence d \<and> confidence d \<le> 1)) \<and>
   (template_parse compile tp text' store coordinates = Inr deals' \<longrightarrow>
      (\<forall>d \<in> set deals'. 0 \<le> confidence d \<and> confidence d \<le> 1))"
  using regex_parse_confidence template_parse_confidence by blast

theorem parsed_confidence_in_unit_interval_witness:
  "regex_parse None ''Ground Beef $6.49/lb'' =
     Inr [\<lparr>raw_text = ''$6.49/lb'', deal_type = UNIT_PRICE, product_name = Some ''Ground Beef'',
           price = Some (649 / 100), unit = Some ''lb'', quantity = None, discount_amount = None,
           discount_percent = None, original_price = None, confidence = 17 / 20,
           position = (12, 20), metadata = [(''pattern'', PStr ''unit_price_lb'')]\<rparr>] \<and>
   list_all (\<lambda>d. 0 \<le> confidence d \<and> confidence d \<le> 1)
     (projr (regex_parse None ''Ground Beef $6.49/lb'')) \<and>
   map confidence (projr (template_parse default_compile default_parser ''Milk $3.49''
                            (Some ''Costco'') None)) = [13 / 20, 13 / 20] \<and>
   list_all (\<lambda>d. 0 \<le> confidence d \<and> confidence d \<le> 1)
     (projr (template_parse default_compile default_parser ''Milk $3.49'' (Some ''Costco'') None))"
proof -
  have r: "regex_parse None ''Ground Beef $6.49/lb'' =
     Inr [\<lparr>raw_text = ''$6.49/lb'', deal_type = UNIT_PRICE, product_name = Some ''Ground Beef'',
           price = Some (649 / 100), unit = Some ''lb'', quantity = None, discount_amount = None,
           discount_percent = None, original_price = None, confidence = 17 / 20,
           position = (12, 20), metadata = [(''pattern'', PStr ''unit_price_lb'')]\<rparr>]"
    by code_simp
  have "case template_parse default_compile default_parser ''Milk $3.49'' (Some ''Costco'') None of
          Inl e \<Rightarrow> False | Inr ds \<Rightarrow> map confidence ds = [13 / 20, 13 / 20]"
    by code_simp
  then obtain ds where t: "template_parse default_compile default_parser ''Milk $3.49''
      (Some ''Costco'') None = Inr ds" and c: "map confidence ds = [13 / 20, 13 / 20]"
    by (auto split: sum.splits)
  from parsed_confidence_in_unit_interval[of None "''Ground Beef $6.49/lb''" _ default_compile
      default_parser "''Milk $3.49''" "Some ''Costco''" None ds] r t c
  show ?thesis by (simp add: list_all_iff)
qed

section \<open>Merging the template pass with the regex pass\<close>




lemma starts_with_iff: "starts_with sub s \<longleftrightarrow> (\<exists>post. s = sub @ post)"
  by (induction sub s rule: starts_with.induct) auto

text \<open>\<open>py_in\<close> is the substring relation.\<close>

lemma py_in_iff: "py_in sub s \<longleftrightarrow> (\<exists>pre post. s = pre @ sub @ post)"
proof (induction s)
  case Nil
  then show ?case by auto
next
  case (Cons c cs)
  show ?case
  proof
    assume "py_in sub (c # cs)"
    then consider "starts_with sub (c # cs)" | "py_in sub cs" by auto
    then show "\<exists>pre post. c # cs = pre @ sub @ post"
    proof cases
      case 1
      then obtain post where "c # cs = sub @ post" using starts_with_iff by blast
      then have "c # cs = [] @ sub @ post" by simp
      then show ?thesis by blast
    next
      case 2
      then obtain pre post where "cs = pre @ sub @ post" using Cons.IH by blast
      then have "c # cs = (c # pre) @ sub @ post" by simp
      then show ?thesis by blast
    qed
  next
    assume "\<exists>pre post. c # cs = pre @ sub @ post"
    then obtain pre post where e: "c # cs = pre @ sub @ post" by blast
    show "py_in sub (c # cs)"
    proof (cases pre)
      case Nil
      then have "starts_with sub (c # cs)" using e starts_with_iff by fastforce
      then show ?thesis by simp
    next
      case (Cons p pre')
      then have "cs = pre' @ sub @ post" using e by simp
      then have "py_in sub cs" using Cons.IH by blast
      then show ?thesis by simp
    qed
  qed
qed







section \<open>Learning a custom pattern and reading it back\<close>

subsection \<open>Literal patterns find their text\<close>

lemma rx_m_lit:
  "t = pre @ s @ post \<Longrightarrow> rx_m (lit s) fl t (length pre) c = [(length pre + length s, c)]"
proof (induction s arbitrary: pre)
  case Nil
  then show ?case by (simp add: lit_def)
next
  case (Cons a s)
  have t: "t = (pre @ [a]) @ s @ post" using Cons.prems by simp
  have "rx_m (lit s) fl t (length (pre @ [a])) c = [(length (pre @ [a]) + length s, c)]"
    by (rule Cons.IH[OF t])
  moreover have "rx_m (In [a]) fl t (length pre) c = [(length pre + 1, c)]"
    using Cons.prems by (simp add: in_class_def nth_append)
  moreover have "lit (a # s) = Seq (In [a]) (lit s)" by (simp add: lit_def)
  ultimately show ?case by simp
qed

lemma rx_scan_finds:
  "rx_match_at r fl t k \<noteq> None \<Longrightarrow> i \<le> k \<Longrightarrow> k < i + n \<Longrightarrow> rx_scan r fl t n i \<noteq> None"
proof (induction n arbitrary: i)
  case 0
  then show ?case by simp
next
  case (Suc n)
  show ?case
  proof (cases "rx_match_at r fl t i")
    case (Some m)
    then show ?thesis by simp
  next
    case None
    then have "i \<noteq> k" using Suc.prems(1) by auto
    then have "rx_scan r fl t n (Suc i) \<noteq> None"
      using Suc.prems by (intro Suc.IH) auto
    then show ?thesis using None by simp
  qed
qed

lemma re_search_finds:
  assumes "rx_m r fl t k [] \<noteq> []" "k \<le> length t"
  shows "re_search r fl t \<noteq> None"
proof -
  have "rx_match_at r fl t k \<noteq> None"
    using assms(1) by (auto simp: rx_match_at_def split: list.splits)
  then show ?thesis
    unfolding re_search_def re_search_from_def
    using assms(2) by (intro rx_scan_finds[where k = k]) auto
qed

lemma dollar_price_found:
  assumes "py_in (CHR ''$'' # ps) raw"
  shows "re_search (Seq (In ''$'') (Grp 1 (lit ps))) flags_i raw \<noteq> None"
proof -
  obtain pre post where raw: "raw = pre @ (CHR ''$'' # ps) @ post"
    using assms py_in_iff by blast
  then have r: "raw = (pre @ ''$'') @ ps @ post" by simp
  have d: "rx_m (In ''$'') flags_i raw (length pre) [] = [(length pre + 1, [])]"
    using raw by (simp add: in_class_def nth_append)
  have "rx_m (lit ps) flags_i raw (length (pre @ ''$'')) [] = [(length (pre @ ''$'') + length ps, [])]"
    by (rule rx_m_lit[OF r])
  then have "rx_m (Seq (In ''$'') (Grp 1 (lit ps))) flags_i raw (length pre) [] \<noteq> []"
    using d by simp
  moreover have "length pre \<le> length raw" using raw by simp
  ultimately show ?thesis by (rule re_search_finds)
qed

subsection \<open>Templates survive the file\<close>

lemma those_all_map:
  "(\<And>x. x \<in> set xs \<Longrightarrow> f x = Some (g x)) \<Longrightarrow> those_all (map f xs) = Some (map g xs)"
  by (induction xs) auto

lemma region_roundtrip: "region_of_json (region_to_json r) = Some r"
  by (simp add: region_of_json_def region_to_json_def well_typed_def region_schema_def
        get_str_def get_num_def is_str_def is_num_def)

lemma str_dict_roundtrip: "str_dict_of_json (JObj (map (\<lambda>(k, v). (k, JStr v)) d)) = Some d"
proof -
  have "those_all (map (\<lambda>(k, v). case v of JStr s \<Rightarrow> Some (k, s) | _ \<Rightarrow> None)
          (map (\<lambda>(k, v). (k, JStr v)) d)) = Some (map (\<lambda>x. x) d)"
    unfolding map_map by (rule those_all_map) (auto split: prod.splits)
  then show ?thesis by (simp add: str_dict_of_json_def)
qed

lemma opt_str_roundtrip:
  "(case json_opt_str s of JStr x \<Rightarrow> Some x | _ \<Rightarrow> None) = s" "is_opt_str (json_opt_str s)"
  by (cases s; simp add: json_opt_str_def is_opt_str_def)+

lemma template_roundtrip: "template_of_json (template_to_json t) = Some t"
proof -
  have r: "those_all (map region_of_json (map region_to_json (regions t))) = Some (map (\<lambda>x. x) (regions t))"
    unfolding map_map by (rule those_all_map) (simp add: region_roundtrip)
  have c: "those_all (map str_dict_of_json
             (map (\<lambda>d. JObj (map (\<lambda>(k, v). (k, JStr v)) d)) (custom_patterns t)))
           = Some (map (\<lambda>x. x) (custom_patterns t))"
    unfolding map_map by (rule those_all_map) (simp add: str_dict_roundtrip)
  show ?thesis
    using r c
    by (simp add: template_of_json_def template_to_json_def json_list_def well_typed_def
          template_schema_def get_str_def get_opt_str_def get_num_def get_int_def get_bool_def
          is_str_def is_int_def is_bool_def is_num_def opt_str_roundtrip)
qed

lemma map_of_dict_set: "map_of (dict_set kvs k v) = (map_of kvs)(k \<mapsto> v)"
  by (induction kvs) (auto simp: fun_eq_iff)

lemma dict_set_keys: "set (map fst (dict_set kvs k v)) = insert k (set (map fst kvs))"
proof (induction kvs)
  case Nil
  then show ?case by simp
next
  case (Cons kv kvs)
  obtain k' v' where kv: "kv = (k', v')" by (cases kv)
  show ?case
  proof (cases "k' = k")
    case True
    then show ?thesis using kv by simp
  next
    case False
    have "set (map fst (dict_set (kv # kvs) k v)) = insert k' (set (map fst (dict_set kvs k v)))"
      using kv False by simp
    then show ?thesis using Cons.IH kv by auto
  qed
qed

lemma dict_set_distinct: "distinct (map fst kvs) \<Longrightarrow> distinct (map fst (dict_set kvs k v))"
proof (induction kvs)
  case Nil
  then show ?case by simp
next
  case (Cons kv kvs)
  obtain k' v' where kv: "kv = (k', v')" by (cases kv)
  show ?case
  proof (cases "k' = k")
    case True
    then show ?thesis using Cons.prems kv by simp
  next
    case False
    have "k' \<notin> set (map fst (dict_set kvs k v))"
      using Cons.prems kv False dict_set_keys[of kvs k v] by auto
    then show ?thesis using Cons kv False by simp
  qed
qed

lemma load_saved_entries:
  "distinct (map fst kvs) \<Longrightarrow> map_of kvs k = Some t \<Longrightarrow>
   map_of (load_entries tpl (map (\<lambda>(store, t). (store, template_to_json t)) kvs)) k = Some t"
proof (induction kvs arbitrary: tpl)
  case Nil
  then show ?case by simp
next
  case (Cons kv kvs)
  obtain k' t' where kv: "kv = (k', t')" by (cases kv)
  show ?case
  proof (cases "k' = k")
    case False
    then show ?thesis using Cons kv by (simp add: template_roundtrip)
  next
    case True
    then have t: "t' = t" using Cons.prems kv by simp
    have notin: "k \<notin> set (map fst kvs)" using Cons.prems kv True by simp
    have keep: "k \<notin> set (map fst xs) \<Longrightarrow> map_of tpl' k = Some t \<Longrightarrow>
        map_of (load_entries tpl' (map (\<lambda>(store, t). (store, template_to_json t)) xs)) k = Some t"
      for xs tpl'
    proof (induction xs arbitrary: tpl')
      case Nil
      then show ?case by simp
    next
      case (Cons x xs)
      then show ?case by (cases x) (simp add: template_roundtrip map_of_dict_set)
    qed
    show ?thesis
      using kv True t keep[OF notin, of "dict_set tpl k t"]
      by (simp add: template_roundtrip map_of_dict_set)
  qed
qed

lemma reload_saved:
  assumes "templates_path tp = Some path" "distinct (map fst (templates tp))"
    "map_of (templates tp) k = Some t"
  shows "map_of (templates (TemplateDealParser_init (Some path) (save_templates tp fs))) k = Some t"
  using assms load_saved_entries[of "templates tp" k t DEFAULT_TEMPLATES]
  by (simp add: TemplateDealParser_init_def save_templates_def load_templates_def)

text \<open>The registry is a dictionary: its keys are distinct at construction and stay so.\<close>

lemma load_entries_distinct:
  "distinct (map fst tpl) \<Longrightarrow> distinct (map fst (load_entries tpl kvs))"
proof (induction kvs arbitrary: tpl)
  case Nil
  then show ?case by simp
next
  case (Cons kv kvs)
  then show ?case by (cases kv) (auto split: option.splits intro: dict_set_distinct)
qed

lemma init_distinct: "distinct (map fst (templates (TemplateDealParser_init path fs)))"
proof -
  have "distinct (map fst DEFAULT_TEMPLATES)" by (simp add: DEFAULT_TEMPLATES_def)
  then show ?thesis
    by (auto simp: TemplateDealParser_init_def load_templates_def load_entries_distinct
             split: option.splits json.splits)
qed

lemma learn_distinct:
  "distinct (map fst (templates tp)) \<Longrightarrow>
   distinct (map fst (templates (fst (template_learn_from_correction now tp fs store od cd raw))))"
  by (simp add: template_learn_from_correction_def Let_def dict_set_distinct)

subsection \<open>The correction round trip\<close>

lemma learn_result:
  "template_learn_from_correction now tp fs store od cd raw = (tp', fs') \<Longrightarrow>
   fs' = save_templates tp' fs \<and> templates_path tp' = templates_path tp"
  by (auto simp: template_learn_from_correction_def Let_def)

lemma learn_gains_pattern:
  assumes "truthy_real (price cd)" "price od \<noteq> price cd"
    "List.find (\<lambda>(pattern, r). re_search r flags_i raw \<noteq> None)
       (patterns_to_try (format_2f (the (price cd)))) = Some (pattern, r)"
    "template_learn_from_correction now tp fs store od cd raw = (tp', fs')"
  shows "\<exists>t' entry. map_of (templates tp') (py_lower store) = Some t' \<and>
           custom_patterns t' =
             (case map_of (templates tp) (py_lower store) of
                None \<Rightarrow> [] | Some t \<Rightarrow> custom_patterns t) @ [entry] \<and>
           map_of entry ''pattern'' = Some pattern"
  using assms
  by (auto simp: template_learn_from_correction_def Let_def map_of_dict_set new_template_def
           split: option.splits)

lemma learn_without_match:
  assumes "\<not> truthy_real (price cd) \<or> price od = price cd \<or>
           List.find (\<lambda>(pattern, r). re_search r flags_i raw \<noteq> None)
             (patterns_to_try (format_2f (the (price cd)))) = None"
    "template_learn_from_correction now tp fs store od cd raw = (tp', fs')"
  shows "\<exists>t'. map_of (templates tp') (py_lower store) = Some t' \<and>
           custom_patterns t' =
             (case map_of (templates tp) (py_lower store) of
                None \<Rightarrow> [] | Some t \<Rightarrow> custom_patterns t)"
  using assms
  by (auto simp: template_learn_from_correction_def Let_def map_of_dict_set new_template_def
           split: option.splits)

text \<open>
  Claim C5. For every correction whose corrected price literally appears in \<^verbatim>\<open>raw_text\<close>,
  \<^verbatim>\<open>learn_from_correction\<close> adds at least one custom pattern to the store's template, and
  saving and reloading the templates preserves it.

  The code learns a pattern only when the corrected price is non-zero and differs from the
  original price, and when one of its three candidate patterns matches: the price after a
  dollar sign, the price before \<^verbatim>\<open>dollar(s)\<close> or \<^verbatim>\<open>usd\<close>, or the price after \<^verbatim>\<open>price\<close> and a colon
  or white space. A bare \<^verbatim>\<open>5.99\<close> in the text teaches nothing, and neither does a correction
  that leaves the price as it was.
\<close>

theorem bare_price_teaches_nothing:
  "py_in ''5.99'' ''Chicken Breast 5.99 per lb'' \<and>
   map_option custom_patterns (map_of (templates (fst (template_learn_from_correction
      ''2026-11-04T10:00:00'' saving_parser (\<lambda>p. None) ''Trader'' wrong_price_deal right_price_deal
      ''Chicken Breast 5.99 per lb''))) ''trader'') = Some [] \<and>
   py_in ''5.99'' ''Chicken Breast $5.99/lb'' \<and>
   map_option custom_patterns (map_of (templates (fst (template_learn_from_correction
      ''2026-11-04T10:00:00'' saving_parser (\<lambda>p. None) ''Trader''
      (right_price_deal\<lparr>product_name := Some ''Chicken''\<rparr>) right_price_deal
      ''Chicken Breast $5.99/lb''))) ''trader'') = Some []"
  by code_simp

text \<open>
  Claim C5, as amended: for every correction whose corrected price is non-zero and differs from the
  original price, and in whose \<^verbatim>\<open>raw_text\<close> the corrected price, written with two decimals,
  stands directly after a dollar sign (or one of the other two candidate patterns
  matches), the store's template gains exactly one custom pattern, which is one of the
  candidates; and when the parser has a templates path, a parser constructed from the
  saved file holds the same template for the store.
\<close>

theorem correction_round_trip:
  assumes "truthy_real (price cd)" and "price od \<noteq> price cd"
    and "py_in (CHR ''$'' # format_2f (the (price cd))) raw \<or>
         list_ex (\<lambda>(pattern, r). re_search r flags_i raw \<noteq> None)
           (patterns_to_try (format_2f (the (price cd))))"
    and "templates_path tp = Some path" and "distinct (map fst (templates tp))"
    and "template_learn_from_correction now tp fs store od cd raw = (tp', fs')"
  shows "\<exists>t' entry.
           map_of (templates tp') (py_lower store) = Some t' \<and>
           custom_patterns t' =
             (case map_of (templates tp) (py_lower store) of
                None \<Rightarrow> [] | Some t \<Rightarrow> custom_patterns t) @ [entry] \<and>
           list_ex (\<lambda>(pattern, r). map_of entry ''pattern'' = Some pattern)
             (patterns_to_try (format_2f (the (price cd)))) \<and>
           map_of (templates (TemplateDealParser_init (Some path) fs')) (py_lower store) = Some t'"
proof -
  let ?P = "\<lambda>(pattern, r). re_search r flags_i raw \<noteq> None"
  let ?ps = "patterns_to_try (format_2f (the (price cd)))"
  have "list_ex ?P ?ps"
  proof (cases "py_in (CHR ''$'' # format_2f (the (price cd))) raw")
    case True
    then show ?thesis
      using dollar_price_found[of "format_2f (the (price cd))" raw]
      by (simp add: patterns_to_try_def Let_def)
  next
    case False
    then show ?thesis using assms(3) by simp
  qed
  then have "List.find ?P ?ps \<noteq> None"
    by (auto simp: find_None_iff list_ex_iff)
  then obtain pattern r where f: "List.find ?P ?ps = Some (pattern, r)"
    by (cases "List.find ?P ?ps") auto
  then have mem: "(pattern, r) \<in> set ?ps"
    unfolding find_Some_iff by (metis nth_mem)
  obtain t' entry where t': "map_of (templates tp') (py_lower store) = Some t'"
      "custom_patterns t' =
         (case map_of (templates tp) (py_lower store) of
            None \<Rightarrow> [] | Some t \<Rightarrow> custom_patterns t) @ [entry]"
      "map_of entry ''pattern'' = Some pattern"
    using learn_gains_pattern[OF assms(1,2) f assms(6)] by blast
  have ex: "list_ex (\<lambda>(pattern, r). map_of entry ''pattern'' = Some pattern) ?ps"
    unfolding list_ex_iff using mem t'(3) by blast
  have "distinct (map fst (templates tp'))"
    using learn_distinct[OF assms(5), of now fs store od cd raw] assms(6) by simp
  moreover have "templates_path tp' = Some path" "fs' = save_templates tp' fs"
    using learn_result[OF assms(6)] assms(4) by simp_all
  ultimately have "map_of (templates (TemplateDealParser_init (Some path) fs')) (py_lower store) = Some t'"
    using reload_saved[of tp' path "py_lower store" t' fs] t'(1) by simp
  then show ?thesis using t'(1,2) ex by blast
qed

theorem correction_round_trip_witness:
  "map_option custom_patterns (map_of (templates (fst (template_learn_from_correction
      ''2026-11-04T10:00:00'' saving_parser (\<lambda>p. None) ''Trader'' wrong_price_deal right_price_deal
      ''Chicken Breast $5.99/lb''))) ''trader'') =
     Some [[(''id'', ''price_1''), (''pattern'', esc ''$(5'' @ esc ''.99)''),
            (''deal_type'', ''price''), (''learned_from'', ''Chicken $5.99'')]] \<and>
   map_of (templates (TemplateDealParser_init (Some ''templates.json'')
      (snd (template_learn_from_correction ''2026-11-04T10:00:00'' saving_parser (\<lambda>p. None)
         ''Trader'' wrong_price_deal right_price_deal ''Chicken Breast $5.99/lb'')))) ''trader'' =
   map_of (templates (fst (template_learn_from_correction
      ''2026-11-04T10:00:00'' saving_parser (\<lambda>p. None) ''Trader'' wrong_price_deal right_price_deal
      ''Chicken Breast $5.99/lb''))) ''trader''"
proof -
  let ?res = "template_learn_from_correction ''2026-11-04T10:00:00'' saving_parser (\<lambda>p. None)
      ''Trader'' wrong_price_deal right_price_deal ''Chicken Breast $5.99/lb''"
  have h: "truthy_real (price right_price_deal)" "price wrong_price_deal \<noteq> price right_price_deal"
      "py_in (CHR ''$'' # format_2f (the (price right_price_deal))) ''Chicken Breast $5.99/lb''"
      "templates_path saving_parser = Some ''templates.json''"
      "map_of (templates saving_parser) (py_lower ''Trader'') = None"
      "py_lower ''Trader'' = ''trader''"
    by code_simp+
  have d: "distinct (map fst (templates saving_parser))"
    unfolding saving_parser_def by (rule init_distinct)
  have e: "?res = (fst ?res, snd ?res)" by simp
  have c: "map_option custom_patterns (map_of (templates (fst ?res)) ''trader'') =
     Some [[(''id'', ''price_1''), (''pattern'', esc ''$(5'' @ esc ''.99)''),
            (''deal_type'', ''price''), (''learned_from'', ''Chicken $5.99'')]]"
    by code_simp
  from correction_round_trip[OF h(1,2) disjI1[OF h(3)] h(4) d e]
  show ?thesis using c h(5,6) by auto
qed

section \<open>Properties of the similarity features\<close>

lemma lev_inv_col: "lev_inv len1 len2 m \<Longrightarrow> i \<le> len1 \<Longrightarrow> lev_inv len1 len2 (m[i := (m ! i)[0 := i]])"
  by (auto simp: lev_inv_def nth_list_update)

lemma lev_inv_row: "lev_inv len1 len2 m \<Longrightarrow> j \<le> len2 \<Longrightarrow> lev_inv len1 len2 (m[0 := (m ! 0)[j := j]])"
  by (auto simp: lev_inv_def nth_list_update)

lemma fold_inv:
  assumes "P a" "\<And>x a. x \<in> set xs \<Longrightarrow> P a \<Longrightarrow> P (f x a)"
  shows "P (fold f xs a)"
  using assms by (induction xs arbitrary: a) auto

lemma lev_inv_init: "lev_inv len1 len2 (lev_init len1 len2)"
proof -
  have 0: "lev_inv len1 len2 (replicate (len1 + 1) (replicate (len2 + 1) 0))"
    by (auto simp: lev_inv_def nth_replicate simp del: replicate_Suc)
  have 1: "lev_inv len1 len2 (fold (\<lambda>i m. m[i := (m ! i)[0 := i]]) [0..<len1 + 1]
              (replicate (len1 + 1) (replicate (len2 + 1) 0)))"
    by (rule fold_inv[where P = "lev_inv len1 len2"], rule 0) (auto intro: lev_inv_col)
  show ?thesis
    unfolding lev_init_def Let_def
    by (rule fold_inv[where P = "lev_inv len1 len2"], rule 1) (auto intro: lev_inv_row)
qed

lemma lev_inv_cell:
  assumes "lev_inv len1 len2 m" "1 \<le> i" "i \<le> len1" "1 \<le> j" "j \<le> len2"
  shows "lev_inv len1 len2 (lev_cell s1 s2 i j m)"
proof -
  have "m ! (i - 1) ! (j - 1) \<le> max (i - 1) (j - 1)"
    using assms by (auto simp: lev_inv_def)
  then have "m ! (i - 1) ! (j - 1) + 1 \<le> max i j"
    using assms by auto
  then show ?thesis
    using assms by (auto simp: lev_inv_def lev_cell_def nth_list_update Let_def min_def)
qed

lemma lev_inv_matrix: "lev_inv (length s1) (length s2) (lev_matrix s1 s2)"
  unfolding lev_matrix_def
  apply (rule fold_inv[where P = "lev_inv (length s1) (length s2)"])
   apply (rule lev_inv_init)
  apply (rule fold_inv[where P = "lev_inv (length s1) (length s2)"])
   apply assumption
  apply (rule lev_inv_cell)
      apply auto
  done

lemma lev_distance_le: "lev_matrix s1 s2 ! length s1 ! length s2 \<le> max (length s1) (length s2)"
  using lev_inv_matrix[of s1 s2] by (auto simp: lev_inv_def)

lemma levenshtein_similarity_bounds:
  "0 \<le> levenshtein_similarity s1 s2 \<and> levenshtein_similarity s1 s2 \<le> 1"
proof (cases "s1 = [] \<or> s2 = []")
  case True
  then show ?thesis by (auto simp: levenshtein_similarity_def)
next
  case False
  then have pos: "0 < max (length s1) (length s2)" by (auto simp: less_max_iff_disj)
  have "real (lev_matrix s1 s2 ! length s1 ! length s2) / real (max (length s1) (length s2)) \<le> 1"
    using lev_distance_le[of s1 s2] pos by (simp add: divide_le_eq_1)
  moreover have "0 \<le> real (lev_matrix s1 s2 ! length s1 ! length s2) / real (max (length s1) (length s2))"
    by simp
  ultimately show ?thesis using False
    by (simp add: levenshtein_similarity_def Let_def)
qed

lemma countT_le_length: "countT xs \<le> length xs"
  by (simp add: countT_def)

lemma countT_replicate_False [simp]: "countT (replicate n False) = 0"
  by (simp add: countT_def)

lemma countT_update_True:
  "i < length xs \<Longrightarrow> countT (xs[i := True]) = (if xs ! i then countT xs else Suc (countT xs))"
proof (induction xs arbitrary: i)
  case Nil
  then show ?case by simp
next
  case (Cons x xs)
  then show ?case by (cases i) (auto simp: countT_def)
qed

lemma countT_take_Suc:
  "n < length xs \<Longrightarrow> countT (take (Suc n) xs) = countT (take n xs) + (if xs ! n then 1 else 0)"
  by (simp add: take_Suc_conv_app_nth countT_def)

lemma countT_take_le: "countT (take n xs) \<le> countT xs"
proof -
  have "countT xs = countT (take n xs) + countT (drop n xs)"
    unfolding countT_def by (metis append_take_drop_id filter_append length_append)
  then show ?thesis by simp
qed

lemma countT_skip_False:
  "k + d \<le> length xs \<Longrightarrow> \<forall>j. k \<le> j \<and> j < k + d \<longrightarrow> \<not> xs ! j \<Longrightarrow>
   countT (take (k + d) xs) = countT (take k xs)"
proof (induction d)
  case 0
  then show ?case by simp
next
  case (Suc d)
  then have "countT (take (k + d) xs) = countT (take k xs)" by simp
  moreover have "countT (take (Suc (k + d)) xs) = countT (take (k + d) xs)"
    using Suc.prems by (subst countT_take_Suc) auto
  ultimately show ?case by simp
qed

lemma countT_exists_True:
  assumes "countT (take k xs) < countT xs"
  shows "\<exists>j. k \<le> j \<and> j < length xs \<and> xs ! j"
proof -
  have "countT xs = countT (take k xs) + countT (drop k xs)"
    unfolding countT_def by (metis append_take_drop_id filter_append length_append)
  with assms have "0 < countT (drop k xs)" by simp
  then have "filter (\<lambda>b. b) (drop k xs) \<noteq> []" by (auto simp: countT_def)
  then obtain b where "b \<in> set (drop k xs)" "b"
    by (metis (mono_tags, lifting) filter_False)
  then obtain i where "i < length (drop k xs)" "drop k xs ! i"
    by (metis in_set_conv_nth)
  then have "k \<le> k + i \<and> k + i < length xs \<and> xs ! (k + i)" by auto
  then show ?thesis by blast
qed

lemma fold_upt_inv:
  assumes "P 0 a" "\<And>i a. i < n \<Longrightarrow> P i a \<Longrightarrow> P (Suc i) (f i a)"
  shows "P n (fold f [0..<n] a)"
proof -
  have "k \<le> n \<Longrightarrow> P k (fold f [0..<k] a)" for k
    by (induction k) (auto simp: assms)
  then show ?thesis by simp
qed

lemma jw_match_step_inv:
  assumes "jw_inv1 (length s1) (length s2) i st" "i < length s1"
  shows "jw_inv1 (length s1) (length s2) (Suc i) (jw_match_step s1 s2 md i st)"
proof -
  obtain s1m s2m m where st: "st = (s1m, s2m, m)" by (cases st) auto
  let ?js = "[nat (max 0 (int i - md))..<nat (min (int i + md + 1) (int (length s2)))]"
  show ?thesis
  proof (cases "List.find (\<lambda>j. \<not> (s2m ! j \<or> s1 ! i \<noteq> s2 ! j)) ?js")
    case None
    then show ?thesis using assms st by (auto simp: jw_inv1_def jw_match_step_def Let_def)
  next
    case (Some j)
    then obtain ix where ix: "ix < length ?js" "j = ?js ! ix"
        "\<not> (s2m ! (?js ! ix) \<or> s1 ! i \<noteq> s2 ! (?js ! ix))"
      unfolding find_Some_iff by blast
    have "j \<in> set ?js" using ix(1,2) nth_mem by blast
    have "\<not> s2m ! j" using ix(2,3) by blast
    have "j < length s2" using \<open>j \<in> set ?js\<close> by auto
    then have "countT (s2m[j := True]) = Suc (countT s2m)"
      using \<open>\<not> s2m ! j\<close> assms st by (simp add: countT_update_True jw_inv1_def)
    moreover have "countT (s1m[i := True]) \<le> Suc (countT s1m)"
      using assms st by (simp add: countT_update_True jw_inv1_def)
    ultimately show ?thesis using assms st Some
      by (auto simp: jw_inv1_def jw_match_step_def Let_def)
  qed
qed

lemma jw_find_matches_inv:
  "jw_inv1 (length s1) (length s2) (length s1) (jw_find_matches s1 s2)"
  unfolding jw_find_matches_def Let_def
proof (rule fold_upt_inv[where P = "jw_inv1 (length s1) (length s2)"])
  show "jw_inv1 (length s1) (length s2) 0 (replicate (length s1) False, replicate (length s2) False, 0)"
    by (simp add: jw_inv1_def)
next
  fix i a
  assume "i < length s1" "jw_inv1 (length s1) (length s2) i a"
  then show "jw_inv1 (length s1) (length s2) (Suc i)
               (jw_match_step s1 s2 (int (max (length s1) (length s2)) div 2 - 1) i a)"
    by (intro jw_match_step_inv)
qed

lemma jw_transp_step_inv:
  assumes "jw_inv2 s1m s2m i st" "i < length s1m" "countT s1m \<le> countT s2m"
  shows "jw_inv2 s1m s2m (Suc i) (jw_transp_step s1 s2 s1m s2m i st)"
proof -
  obtain k t where st: "st = Inr (k, t)"
    using assms(1) by (cases st) (auto simp: jw_inv2_def)
  have inv: "k \<le> length s2m" "countT (take k s2m) = countT (take i s1m)" "t \<le> countT (take i s1m)"
    using assms(1) st by (auto simp: jw_inv2_def)
  show ?thesis
  proof (cases "s1m ! i")
    case False
    then show ?thesis using inv st assms(2)
      by (simp add: jw_inv2_def jw_transp_step_def countT_take_Suc)
  next
    case True
    then have c1: "countT (take (Suc i) s1m) = Suc (countT (take i s1m))"
      using assms(2) by (simp add: countT_take_Suc)
    have "countT (take (Suc i) s1m) \<le> countT s2m"
      using countT_take_le[of "Suc i" s1m] assms(3) by simp
    then have "countT (take k s2m) < countT s2m" using c1 inv by simp
    then obtain j where j: "k \<le> j" "j < length s2m" "s2m ! j"
      using countT_exists_True by blast
    then have "\<exists>x \<in> set [k..<length s2m]. s2m ! x" by auto
    then obtain k' where f: "List.find (\<lambda>k'. s2m ! k') [k..<length s2m] = Some k'"
      by (cases "List.find (\<lambda>k'. s2m ! k') [k..<length s2m]") (auto simp: find_None_iff)
    then obtain ix where ix: "ix < length [k..<length s2m]" "s2m ! ([k..<length s2m] ! ix)"
        "k' = [k..<length s2m] ! ix" "\<forall>j<ix. \<not> s2m ! ([k..<length s2m] ! j)"
      unfolding find_Some_iff by blast
    then have k': "k' = k + ix" "k' < length s2m" "s2m ! k'" by auto
    have nf: "\<forall>j. k \<le> j \<and> j < k + ix \<longrightarrow> \<not> s2m ! j"
    proof (intro allI impI)
      fix j assume a: "k \<le> j \<and> j < k + ix"
      then have "j - k < ix" by auto
      then have "\<not> s2m ! ([k..<length s2m] ! (j - k))" using ix(4) by blast
      moreover have "[k..<length s2m] ! (j - k) = j" using a ix(1) by auto
      ultimately show "\<not> s2m ! j" by simp
    qed
    have "countT (take (k + ix) s2m) = countT (take k s2m)"
      using countT_skip_False[of k ix s2m] nf k' by auto
    then have c2: "countT (take (Suc k') s2m) = Suc (countT (take k s2m))"
      using k' by (simp add: countT_take_Suc)
    show ?thesis using True st f c1 c2 inv k'
      by (auto simp: jw_inv2_def jw_transp_step_def)
  qed
qed

lemma jw_transpositions_inv:
  assumes "countT s1m \<le> countT s2m" "length s1m = length s1"
  shows "jw_inv2 s1m s2m (length s1) (jw_transpositions s1 s2 s1m s2m)"
  unfolding jw_transpositions_def
proof (rule fold_upt_inv[where P = "jw_inv2 s1m s2m"])
  show "jw_inv2 s1m s2m 0 (Inr (0, 0))"
    by (simp add: jw_inv2_def countT_def)
next
  fix i a
  assume "i < length s1" "jw_inv2 s1m s2m i a"
  then show "jw_inv2 s1m s2m (Suc i) (jw_transp_step s1 s2 s1m s2m i a)"
    using assms by (intro jw_transp_step_inv) auto
qed

lemma jw_prefix_le: "jw_prefix s1 s2 \<le> 4"
proof -
  have "jw_prefix s1 s2 \<le> length [0..<min (min (length s1) (length s2)) 4]"
    unfolding jw_prefix_def by (rule length_takeWhile_le)
  then show ?thesis by simp
qed

lemma jw_formula_range:
  fixes m t l1 l2 p :: nat
  assumes "0 < m" "m \<le> l1" "m \<le> l2" "t \<le> m" "p \<le> 4"
  defines "jaro \<equiv> (real m / real l1 + real m / real l2 + (real m - real t / 2) / real m) / 3"
  shows "0 \<le> jaro + real p * (1 / 10) * (1 - jaro) \<and> jaro + real p * (1 / 10) * (1 - jaro) \<le> 1"
proof -
  have a: "0 \<le> real m / real l1" "real m / real l1 \<le> 1"
    using assms by (auto simp: divide_le_eq_1)
  have b: "0 \<le> real m / real l2" "real m / real l2 \<le> 1"
    using assms by (auto simp: divide_le_eq_1)
  have c: "0 \<le> (real m - real t / 2) / real m" "(real m - real t / 2) / real m \<le> 1"
    using assms by (auto simp: divide_le_eq_1)
  have j: "0 \<le> jaro" "jaro \<le> 1" unfolding jaro_def using a b c by auto
  have p: "0 \<le> real p * (1 / 10)" "real p * (1 / 10) \<le> 1" using assms(5) by auto
  have 1: "0 \<le> real p * (1 / 10) * (1 - jaro)" using p j by simp
  have "real p * (1 / 10) * (1 - jaro) \<le> 1 * (1 - jaro)"
    using p j by (intro mult_right_mono) auto
  then show ?thesis using 1 j by auto
qed

lemma jaro_winkler_bounds:
  "\<exists>r. jaro_winkler_similarity s1 s2 = Inr r \<and> 0 \<le> r \<and> r \<le> 1"
proof -
  obtain s1m s2m m where fm: "jw_find_matches s1 s2 = (s1m, s2m, m)"
    by (cases "jw_find_matches s1 s2") auto
  have inv1: "length s1m = length s1" "length s2m = length s2" "m \<le> length s1"
      "countT s1m \<le> m" "m = countT s2m"
    using jw_find_matches_inv[of s1 s2] fm by (auto simp: jw_inv1_def)
  have m2: "m \<le> length s2" using inv1 countT_le_length[of s2m] by simp
  have "jw_inv2 s1m s2m (length s1) (jw_transpositions s1 s2 s1m s2m)"
    using inv1 by (intro jw_transpositions_inv) auto
  then obtain k t where tr: "jw_transpositions s1 s2 s1m s2m = Inr (k, t)"
      and t: "t \<le> countT (take (length s1) s1m)"
    by (cases "jw_transpositions s1 s2 s1m s2m") (auto simp: jw_inv2_def)
  have tm: "t \<le> m" using t inv1 by simp
  show ?thesis
  proof (cases "s1 = [] \<or> s2 = [] \<or> s1 = s2 \<or> m = 0")
    case True
    then show ?thesis using fm by (auto simp: jaro_winkler_similarity_def)
  next
    case False
    then have "0 < m" by simp
    from jw_formula_range[OF this inv1(3) m2 tm jw_prefix_le[of s1 s2]]
    show ?thesis using False fm tr
      by (simp add: jaro_winkler_similarity_def Let_def)
  qed
qed


text \<open>
  Claim C10. For every pair of input strings, \<^verbatim>\<open>_levenshtein_similarity\<close> and
  \<^verbatim>\<open>_jaro_winkler_similarity\<close> each return a value in the closed interval \<open>[0, 1]\<close>; the
  Jaro-Winkler function never raises, and its prefix boost never pushes the result above one.
\<close>

theorem similarity_features_in_unit_interval:
  "0 \<le> levenshtein_similarity s1 s2 \<and> levenshtein_similarity s1 s2 \<le> 1 \<and>
   (\<exists>r. jaro_winkler_similarity s1 s2 = Inr r \<and> 0 \<le> r \<and> r \<le> 1)"
  using levenshtein_similarity_bounds[of s1 s2] jaro_winkler_bounds[of s1 s2] by simp

theorem similarity_features_in_unit_interval_witness:
  "0 \<le> levenshtein_similarity ''milk'' ''silk'' \<and> levenshtein_similarity ''milk'' ''silk'' \<le> 1 \<and>
   (\<exists>r. jaro_winkler_similarity ''milk'' ''silk'' = Inr r \<and> 0 \<le> r \<and> r \<le> 1)"
  by (rule similarity_features_in_unit_interval)

section \<open>Properties of classifier training\<close>






section \<open>Properties of the target-date projection\<close>




section \<open>Properties of the progressive learner\<close>

lemma retrain_phase [simp]: "current_phase (fst (retrain_ml_model env l)) = current_phase l"
  by (auto simp: retrain_ml_model_def split: prod.splits sum.splits fit_outcome.splits)




lemma record_step_phase [simp]:
  "current_phase (record_step l deal_id od cd raw store om cp) = current_phase l"
  by (simp add: record_step_def Let_def)

lemma template_step_phase [simp]:
  "current_phase (template_step now l store od cd raw) = current_phase l"
  by (simp add: template_step_def split: prod.splits)

lemma training_step_phase [simp]:
  "current_phase (training_step l od cd om cp) = current_phase l"
  by (simp add: training_step_def)

lemma tracker_step_phase [simp]: "current_phase (tracker_step l store od) = current_phase l"
  by (simp add: tracker_step_def)

lemma retrain_step_phase [simp]: "current_phase (fst (retrain_step env l)) = current_phase l"
  using retrain_phase[of env l] by (cases "retrain_ml_model env l") (auto simp: retrain_step_def)






text \<open>Counting an ad adds one to the total, whatever the store.\<close>

lemma sum_dict_set_bump:
  "sum_list (map snd (dict_set d k (dict_get d k 0 + 1))) = sum_list (map snd d) + (1::int)"
proof (induction d)
  case Nil
  then show ?case by (simp add: dict_get_def)
next
  case (Cons kv d)
  obtain k' v' where kv: "kv = (k', v')" by (cases kv)
  show ?case
  proof (cases "k' = k")
    case True
    then show ?thesis using kv by (simp add: dict_get_def)
  next
    case False
    then have "dict_get (kv # d) k 0 = dict_get d k 0" using kv by (simp add: dict_get_def)
    then show ?thesis using Cons.IH False kv by simp
  qed
qed

lemma count_ad_facts [simp]:
  "total_ads (count_ad l store) = total_ads l + 1"
  "current_phase (count_ad l store) = current_phase l"
  "config (count_ad l store) = config l"
  "total_corrections (count_ad l store) = total_corrections l"
  by (simp_all add: count_ad_def total_ads_def sum_dict_set_bump)

lemma process_ad_cases:
  "(\<exists>e. process_ad env l ad_text store coordinates = (count_ad l store, Inl e)) \<or>
   (\<exists>r. process_ad env l ad_text store coordinates =
           (fst (check_phase_advancement env (count_ad l store)), Inr r))"
  unfolding process_ad_def Let_def count_ad_def[symmetric]
  by (auto split: sum.splits prod.splits)



lemma retrain_keeps:
  "config (fst (retrain_ml_model env l)) = config l"
  "ads_processed (fst (retrain_ml_model env l)) = ads_processed l"
  "total_corrections (fst (retrain_ml_model env l)) = total_corrections l"
  by (auto simp: retrain_ml_model_def split: prod.splits sum.splits fit_outcome.splits)



lemma learn_from_correction_state:
  "fst (learn_from_correction env now l deal_id od cd raw store om cp) =
     save_state (fst (check_phase_advancement env (before_check env now l deal_id od cd raw store om cp)))"
  by (simp add: learn_from_correction_def Let_def before_check_def)




lemma learner_at_facts [simp]:
  "current_phase (learner_at a c) = PHASE_1_REGEX"
  "config (learner_at a c) = default_config"
  "total_ads (learner_at a c) = a"
  "total_corrections (learner_at a c) = c"
  by (simp_all add: learner_at_def new_learner_def total_ads_def)


text \<open>\<^verbatim>\<open>_save_state\<close> makes the files agree with the memory, and \<^verbatim>\<open>learn_from_correction\<close>
  ends with it.\<close>

lemma save_state_persisted: "persisted (save_state l)"
  by (simp add: persisted_def save_state_def state_snapshot_def Let_def)

lemma learn_from_correction_persisted:
  "persisted (fst (learn_from_correction env now l deal_id od cd raw store om cp))"
  by (simp add: learn_from_correction_state save_state_persisted)

text \<open>\<^verbatim>\<open>process_ad\<close> writes nothing: the files are as before, while the ad counters in
  memory have changed. A state that was persisted before the call is not persisted
  after it.\<close>

lemma retrain_disk [simp]: "disk (fst (retrain_ml_model env l)) = disk l"
  by (auto simp: retrain_ml_model_def split: prod.splits sum.splits fit_outcome.splits)

lemma check_phase_disk [simp]: "disk (fst (check_phase_advancement env l)) = disk l"
  by (cases "current_phase l") (auto simp: check_phase_advancement_def Let_def)

lemma check_phase_ads [simp]:
  "ads_processed (fst (check_phase_advancement env l)) = ads_processed l"
  by (cases "current_phase l") (auto simp: check_phase_advancement_def Let_def retrain_keeps)

lemma process_ad_disk: "disk (fst (process_ad env l ad_text store coordinates)) = disk l"
  using process_ad_cases[of env l ad_text store coordinates]
  by (auto simp: count_ad_def)

lemma process_ad_total_ads:
  "total_ads (fst (process_ad env l ad_text store coordinates)) = total_ads l + 1"
proof -
  have "ads_processed (fst (process_ad env l ad_text store coordinates)) =
          ads_processed (count_ad l store)"
    using process_ad_cases[of env l ad_text store coordinates] by auto
  then show ?thesis using count_ad_facts(1)[of l store] by (simp add: total_ads_def)
qed

lemma process_ad_never_saves:
  assumes "persisted l"
  shows "\<not> persisted (fst (process_ad env l ad_text store coordinates))"
proof
  let ?l' = "fst (process_ad env l ad_text store coordinates)"
  assume "persisted ?l'"
  then have "learner_state_json (disk ?l') = Some (state_snapshot ?l')"
    by (simp add: persisted_def)
  moreover have "learner_state_json (disk ?l') = Some (state_snapshot l)"
    using assms by (simp add: process_ad_disk persisted_def)
  ultimately have "ads_processed ?l' = ads_processed l"
    by (simp add: state_snapshot_def)
  then have "total_ads ?l' = total_ads l" by (simp add: total_ads_def)
  then show False using process_ad_total_ads[of env l ad_text store coordinates] by simp
qed

text \<open>
  Claim C4. After every mutating call, \<^verbatim>\<open>process_ad\<close> as well as \<^verbatim>\<open>learn_from_correction\<close>,
  the learner state on disk agrees with the state in memory. \<^verbatim>\<open>learn_from_correction\<close> and
  \<^verbatim>\<open>force_phase\<close> end with \<^verbatim>\<open>_save_state\<close>; \<^verbatim>\<open>process_ad\<close> never calls it. On a new learner, one
  \<^verbatim>\<open>process_ad\<close> call leaves the ad counter at one in memory and no state file on disk; a
  fifth call moves the learner to phase 2 in memory only.
\<close>

theorem process_ad_not_persisted:
  "ads_processed (fst (process_ad example_env (new_learner default_config) ''Milk $5.99''
      (Some ''Kroger'') None)) = [(''kroger'', 1)] \<and>
   learner_state_json (disk (fst (process_ad example_env (new_learner default_config)
      ''Milk $5.99'' (Some ''Kroger'') None))) = None \<and>
   persisted (fst (process_ad example_env (new_learner default_config) ''Milk $5.99''
      (Some ''Kroger'') None)) = False \<and>
   current_phase (fst (process_ad example_env (save_state (learner_at 4 0)) ''Milk $5.99''
      (Some ''Kroger'') None)) = PHASE_2_TEMPLATE \<and>
   map_option ss_current_phase (learner_state_json (disk (fst (process_ad example_env
      (save_state (learner_at 4 0)) ''Milk $5.99'' (Some ''Kroger'') None)))) = Some 1"
  by code_simp

end
